theory Spec2Isabelle
  imports Main "HOL-Library.Sublist"
begin

section \<open>JavaScript values\<close>

text \<open>
  The translators work on untyped JavaScript values (\<open>unknown\<close>, \<open>Record<string, unknown>\<close>).
  A value is modelled by \<open>jval\<close>. An object is the list of its own enumerable entries in
  the order \<open>Object.entries\<close> yields them. Numbers are restricted to integers. A \<open>Date\<close>
  carries the two strings the code can observe: the result of \<open>toISOString()\<close> and the
  result of \<open>String(date)\<close>.
\<close>

datatype jval =
    JUndefined
  | JNull
  | JBool bool
  | JNum int
  | JStr string
  | JDate string string
  | JArr "jval list"
  | JObj "(string \<times> jval) list"

text \<open>
  A bound parameter is either a value passed through unchanged, or the string produced by
  the builtin \<open>JSON.stringify\<close>, which is kept symbolic: \<open>Json v\<close> stands for the string
  \<open>JSON.stringify(v)\<close>.
\<close>

datatype bound = Val jval | Json jval

datatype error = TypeError | Error string

datatype jstype = TUndefined | TObject | TBoolean | TNumber | TString

fun typeof :: "jval \<Rightarrow> jstype" where
  "typeof JUndefined = TUndefined"
| "typeof JNull = TObject"
| "typeof (JBool b) = TBoolean"
| "typeof (JNum n) = TNumber"
| "typeof (JStr s) = TString"
| "typeof (JDate i s) = TObject"
| "typeof (JArr xs) = TObject"
| "typeof (JObj kvs) = TObject"

fun truthy :: "jval \<Rightarrow> bool" where
  "truthy JUndefined = False"
| "truthy JNull = False"
| "truthy (JBool b) = b"
| "truthy (JNum n) = (n \<noteq> 0)"
| "truthy (JStr s) = (s \<noteq> [])"
| "truthy (JDate i s) = True"
| "truthy (JArr xs) = True"
| "truthy (JObj kvs) = True"

fun isArray :: "jval \<Rightarrow> bool" where
  "isArray (JArr xs) = True"
| "isArray v = False"

fun isDate :: "jval \<Rightarrow> bool" where
  "isDate (JDate i s) = True"
| "isDate v = False"

definition digit_char :: "nat \<Rightarrow> char" where
  "digit_char n = ''0123456789'' ! n"

fun nat_str :: "nat \<Rightarrow> string" where
  "nat_str n = (if n < 10 then [digit_char n] else nat_str (n div 10) @ [digit_char (n mod 10)])"

declare nat_str.simps [simp del]

definition int_str :: "int \<Rightarrow> string" where
  "int_str i = (if i < 0 then CHR ''-'' # nat_str (nat (- i)) else nat_str (nat i))"

fun join :: "string \<Rightarrow> string list \<Rightarrow> string" where
  "join sep [] = []"
| "join sep [x] = x"
| "join sep (x # y # ys) = x @ sep @ join sep (y # ys)"

text \<open>\<open>Object.entries\<close>: a \<open>TypeError\<close> on \<open>null\<close> and \<open>undefined\<close> (\<open>None\<close>), the
  index/character pairs of a string, the index/element pairs of an array, nothing for the
  other primitives and for a \<open>Date\<close>.\<close>

definition indexed :: "'a list \<Rightarrow> (string \<times> 'a) list" where
  "indexed xs = zip (map nat_str [0..<length xs]) xs"

fun entries :: "jval \<Rightarrow> (string \<times> jval) list option" where
  "entries JUndefined = None"
| "entries JNull = None"
| "entries (JBool b) = Some []"
| "entries (JNum n) = Some []"
| "entries (JStr s) = Some (indexed (map (\<lambda>c. JStr [c]) s))"
| "entries (JDate i s) = Some []"
| "entries (JArr xs) = Some (indexed xs)"
| "entries (JObj kvs) = Some kvs"

text \<open>The builtin \<open>String(v)\<close>.\<close>

fun js_String :: "jval \<Rightarrow> string" where
  "js_String JUndefined = ''undefined''"
| "js_String JNull = ''null''"
| "js_String (JBool b) = (if b then ''true'' else ''false'')"
| "js_String (JNum n) = int_str n"
| "js_String (JStr s) = s"
| "js_String (JDate i s) = s"
| "js_String (JArr xs) =
     join '','' (map (\<lambda>x. if x = JNull \<or> x = JUndefined then [] else js_String x) xs)"
| "js_String (JObj kvs) = ''[object Object]''"

definition nl :: string where
  "nl = [CHR 0x0A]"

definition spaces :: "nat \<Rightarrow> string" where
  "spaces n = replicate n CHR '' ''"

section \<open>The base adapter (src/adapters/base_adapter.ts)\<close>

text \<open>A query as the adapters return it.\<close>

record SqlQuery =
  sql :: string
  params :: "bound list"


text \<open>
  \<open>BaseSqlAdapter\<close> is abstract in \<open>escapeIdentifier\<close> and \<open>getParameterPlaceholder\<close>;
  a dialect supplies them.
\<close>

record dialect =
  escapeIdentifier :: "string \<Rightarrow> string"
  getParameterPlaceholder :: "nat \<Rightarrow> string"

text \<open>The pair of arrays a condition builder appends to: the conditions collected so far
  and the caller's \<open>params\<close>.\<close>

type_synonym cstate = "string list \<times> bound list"

definition serializeValue :: "jval \<Rightarrow> bound" where
  "serializeValue v =
     (if v = JNull \<or> v = JUndefined then Val JNull
      else case v of
        JDate i s \<Rightarrow> Val (JStr i)
      | _ \<Rightarrow> if typeof v = TObject then Json v else Val v)"

text \<open>\<open>params.push(this.serializeValue(value)); conditions.push(`${column} OP ${ph}`)\<close>\<close>

definition push_cmp :: "dialect \<Rightarrow> string \<Rightarrow> string \<Rightarrow> jval \<Rightarrow> cstate \<Rightarrow> cstate" where
  "push_cmp d column cmp v st =
     (case st of (conds, prm) \<Rightarrow>
        (conds @ [column @ cmp @ getParameterPlaceholder d (length prm)],
         prm @ [serializeValue v]))"

text \<open>The inner loop of \<open>$in\<close> and \<open>$nin\<close>: one parameter and one placeholder per item.\<close>

fun in_items :: "dialect \<Rightarrow> jval list \<Rightarrow> bound list \<Rightarrow> string list \<times> bound list" where
  "in_items d [] prm = ([], prm)"
| "in_items d (item # items) prm =
     (case in_items d items (prm @ [serializeValue item]) of
        (phs, ps) \<Rightarrow> (getParameterPlaceholder d (length prm) # phs, ps))"

definition push_in :: "dialect \<Rightarrow> string \<Rightarrow> string \<Rightarrow> string \<Rightarrow> jval \<Rightarrow> cstate \<Rightarrow> cstate" where
  "push_in d column kw empty_const v st =
     (case st of (conds, prm) \<Rightarrow>
        (case v of
           JArr (x # xs) \<Rightarrow>
             (case in_items d (x # xs) prm of
                (phs, ps) \<Rightarrow> (conds @ [column @ kw @ ''('' @ join '', '' phs @ '')''], ps))
         | _ \<Rightarrow> (conds @ [empty_const], prm)))"

text \<open>One iteration of the \<open>switch (op)\<close> in \<open>BaseSqlAdapter.buildOperatorConditions\<close>.
  The switch has no default branch.\<close>

definition base_operator :: "dialect \<Rightarrow> string \<Rightarrow> string \<Rightarrow> jval \<Rightarrow> cstate \<Rightarrow> error + cstate" where
  "base_operator d column op v st =
     (if op = ''$eq'' then
        (if v = JNull then Inr (fst st @ [column @ '' IS NULL''], snd st)
         else Inr (push_cmp d column '' = '' v st))
      else if op = ''$ne'' then
        (if v = JNull then Inr (fst st @ [column @ '' IS NOT NULL''], snd st)
         else Inr (push_cmp d column '' <> '' v st))
      else if op = ''$gt'' then Inr (push_cmp d column '' > '' v st)
      else if op = ''$gte'' then Inr (push_cmp d column '' >= '' v st)
      else if op = ''$lt'' then Inr (push_cmp d column '' < '' v st)
      else if op = ''$lte'' then Inr (push_cmp d column '' <= '' v st)
      else if op = ''$in'' then Inr (push_in d column '' IN '' ''FALSE'' v st)
      else if op = ''$nin'' then Inr (push_in d column '' NOT IN '' ''TRUE'' v st)
      else if op = ''$exists'' then
        Inr (fst st @ [if truthy v then column @ '' IS NOT NULL'' else column @ '' IS NULL''],
             snd st)
      else if op = ''$regex'' then Inr (push_cmp d column '' REGEXP '' v st)
      else if op = ''$all'' \<or> op = ''$elemMatch'' \<or> op = ''$size'' \<or> op = ''$type''
              \<or> op = ''$mod'' then
        Inl (Error (''Operator '' @ op @ '' not implemented in base adapter''))
      else Inr st)"

fun base_operators :: "dialect \<Rightarrow> string \<Rightarrow> (string \<times> jval) list \<Rightarrow> cstate \<Rightarrow> error + cstate" where
  "base_operators d column [] st = Inr st"
| "base_operators d column ((op, v) # rest) st =
     (case base_operator d column op v st of
        Inl e \<Rightarrow> Inl e
      | Inr st' \<Rightarrow> base_operators d column rest st')"

definition buildOperatorConditions ::
  "dialect \<Rightarrow> string \<Rightarrow> jval \<Rightarrow> bound list \<Rightarrow> error + (string \<times> bound list)" where
  "buildOperatorConditions d column operators prm =
     (case entries operators of
        None \<Rightarrow> Inl TypeError
      | Some es \<Rightarrow>
          (case base_operators d column es ([], prm) of
             Inl e \<Rightarrow> Inl e
           | Inr (conds, ps) \<Rightarrow>
               Inr (if conds \<noteq> [] then ''('' @ join '' AND '' conds @ '')'' else [], ps)))"


text \<open>A regular field of \<open>buildWhereClause\<close> (lines 230-249).\<close>

definition field_condition :: "dialect \<Rightarrow> string \<Rightarrow> string \<Rightarrow> jval \<Rightarrow> cstate \<Rightarrow> error + cstate" where
  "field_condition d pre key v st =
     (let column = pre @ escapeIdentifier d key in
      if v = JNull then Inr (fst st @ [column @ '' IS NULL''], snd st)
      else if typeof v \<noteq> TObject \<or> isDate v then Inr (push_cmp d column '' = '' v st)
      else
        (case buildOperatorConditions d column v (snd st) of
           Inl e \<Rightarrow> Inl e
         | Inr (c, ps) \<Rightarrow> Inr (if c \<noteq> [] then fst st @ [c] else fst st, ps)))"

text \<open>The loop of \<open>buildWhereClause\<close> over entries none of whose keys is a logical
  operator: used for the entries of a string or an array, whose keys are indices.\<close>

fun where_flat :: "dialect \<Rightarrow> string \<Rightarrow> (string \<times> jval) list \<Rightarrow> cstate \<Rightarrow> error + cstate" where
  "where_flat d pre [] st = Inr st"
| "where_flat d pre ((key, v) # rest) st =
     (case field_condition d pre key v st of
        Inl e \<Rightarrow> Inl e
      | Inr st' \<Rightarrow> where_flat d pre rest st')"

text \<open>\<open>conditions.push(`(${subs.join(' AND ')})`)\<close> and its \<open>$or\<close> and \<open>$nor\<close> forms, after
  \<open>.filter(Boolean)\<close>; nothing is pushed when no sub-condition is left.\<close>

definition logical_condition :: "string \<Rightarrow> string list \<Rightarrow> string list" where
  "logical_condition key subs =
     (let cs = filter (\<lambda>c. c \<noteq> []) subs in
      if cs = [] then []
      else if key = ''$and'' then [''('' @ join '' AND '' cs @ '')'']
      else if key = ''$or'' then [''('' @ join '' OR '' cs @ '')'']
      else [''NOT ('' @ join '' OR '' cs @ '')''])"

definition is_logical :: "string \<Rightarrow> bool" where
  "is_logical key = (key = ''$and'' \<or> key = ''$or'' \<or> key = ''$nor'')"

text \<open>\<open>BaseSqlAdapter.buildWhereClause\<close> (lines 197-253). \<open>where_subs\<close> is
  \<open>value.map(subFilter => this.buildWhereClause(subFilter, params, prefix))\<close>, with the
  shared \<open>params\<close> array threaded from one sub-filter to the next.\<close>

fun buildWhereClause :: "dialect \<Rightarrow> string \<Rightarrow> jval \<Rightarrow> bound list \<Rightarrow> error + (string \<times> bound list)"
and where_entries :: "dialect \<Rightarrow> string \<Rightarrow> (string \<times> jval) list \<Rightarrow> cstate \<Rightarrow> error + cstate"
and where_subs :: "dialect \<Rightarrow> string \<Rightarrow> jval list \<Rightarrow> bound list \<Rightarrow> error + (string list \<times> bound list)"
where
  "buildWhereClause d pre (JObj kvs) prm =
     (if kvs = [] then Inr ([], prm)
      else
        (case where_entries d pre kvs ([], prm) of
           Inl e \<Rightarrow> Inl e
         | Inr (conds, ps) \<Rightarrow> Inr (join '' AND '' conds, ps)))"
| "buildWhereClause d pre (JArr xs) prm =
     (if xs = [] then Inr ([], prm)
      else
        (case where_flat d pre (indexed xs) ([], prm) of
           Inl e \<Rightarrow> Inl e
         | Inr (conds, ps) \<Rightarrow> Inr (join '' AND '' conds, ps)))"
| "buildWhereClause d pre (JStr s) prm =
     (if s = [] then Inr ([], prm)
      else
        (case where_flat d pre (indexed (map (\<lambda>c. JStr [c]) s)) ([], prm) of
           Inl e \<Rightarrow> Inl e
         | Inr (conds, ps) \<Rightarrow> Inr (join '' AND '' conds, ps)))"
| "buildWhereClause d pre JUndefined prm = Inr ([], prm)"
| "buildWhereClause d pre JNull prm = Inr ([], prm)"
| "buildWhereClause d pre (JBool b) prm = Inr ([], prm)"
| "buildWhereClause d pre (JNum n) prm = Inr ([], prm)"
| "buildWhereClause d pre (JDate i s) prm = Inr ([], prm)"
| "where_entries d pre [] st = Inr st"
| "where_entries d pre ((key, v) # rest) st =
     (if is_logical key \<and> isArray v then
        (case v of
           JArr subs \<Rightarrow>
             (case where_subs d pre subs (snd st) of
                Inl e \<Rightarrow> Inl e
              | Inr (cs, ps) \<Rightarrow> where_entries d pre rest (fst st @ logical_condition key cs, ps))
         | _ \<Rightarrow> Inr st)
      else
        (case field_condition d pre key v st of
           Inl e \<Rightarrow> Inl e
         | Inr st' \<Rightarrow> where_entries d pre rest st'))"
| "where_subs d pre [] prm = Inr ([], prm)"
| "where_subs d pre (x # xs) prm =
     (case buildWhereClause d pre x prm of
        Inl e \<Rightarrow> Inl e
      | Inr (c, ps) \<Rightarrow>
          (case where_subs d pre xs ps of
             Inl e \<Rightarrow> Inl e
           | Inr (cs, ps') \<Rightarrow> Inr (c # cs, ps')))"

text \<open>\<open>BaseSqlAdapter.translateFilter\<close> (lines 72-81); an absent or empty \<open>tableAlias\<close> gives
  no prefix.\<close>

definition alias_prefix :: "dialect \<Rightarrow> string option \<Rightarrow> string" where
  "alias_prefix d tableAlias =
     (case tableAlias of
        None \<Rightarrow> []
      | Some a \<Rightarrow> if a = [] then [] else escapeIdentifier d a @ ''.'')"

definition translateFilter :: "dialect \<Rightarrow> jval \<Rightarrow> string option \<Rightarrow> error + SqlQuery" where
  "translateFilter d flt tableAlias =
     (case buildWhereClause d (alias_prefix d tableAlias) flt [] of
        Inl e \<Rightarrow> Inl e
      | Inr (whereClause, ps) \<Rightarrow>
          Inr \<lparr> sql = (if whereClause \<noteq> [] then ''WHERE '' @ whereClause else []), params = ps \<rparr>)"

text \<open>\<open>BaseSqlAdapter.translateDelete\<close> (lines 137-146).\<close>

definition translateDelete :: "dialect \<Rightarrow> string \<Rightarrow> jval \<Rightarrow> error + SqlQuery" where
  "translateDelete d tableName flt =
     (case translateFilter d flt None of
        Inl e \<Rightarrow> Inl e
      | Inr q \<Rightarrow>
          Inr \<lparr> sql = ''DELETE FROM '' @ escapeIdentifier d tableName @ '' '' @ sql q,
                params = params q \<rparr>)"

section \<open>The SQLite adapter (src/adapters/sqlite/sqlite_adapter.ts): operators\<close>

definition sq :: string where
  "sq = [CHR 0x27]"

definition dq :: string where
  "dq = [CHR 0x22]"

text \<open>\<open>`Q${identifier.replace(/Q/g, 'QQ')}Q`\<close> for the quote character \<open>Q\<close>.\<close>

definition quote_ident :: "char \<Rightarrow> string \<Rightarrow> string" where
  "quote_ident q s = q # concat (map (\<lambda>c. if c = q then [q, q] else [c]) s) @ [q]"

definition sqlite :: dialect where
  "sqlite = \<lparr> escapeIdentifier = quote_ident (CHR 0x22),
              getParameterPlaceholder = (\<lambda>i. ''?'') \<rparr>"

text \<open>The LIKE pattern built from the regex string (lines 213-227).\<close>

definition likePattern :: "string \<Rightarrow> string" where
  "likePattern regexStr =
     (let p1 = (if prefix ''^'' regexStr then drop 1 regexStr else ''%'' @ regexStr)
      in if suffix ''$'' regexStr then take (length p1 - 1) p1 else p1 @ ''%'')"

text \<open>The inner switch of \<open>$elemMatch\<close>: \<open>target\<close> is \<open>json_each.value\<close> in
  \<open>buildOperatorConditions\<close> and \<open>value\<close> in \<open>buildSchemaBasedWhereClause\<close>.\<close>

definition elem_cmp :: "string \<Rightarrow> string option" where
  "elem_cmp operator =
     (if operator = ''$eq'' then Some '' = ''
      else if operator = ''$ne'' then Some '' != ''
      else if operator = ''$gt'' then Some '' > ''
      else if operator = ''$gte'' then Some '' >= ''
      else if operator = ''$lt'' then Some '' < ''
      else if operator = ''$lte'' then Some '' <= ''
      else None)"

definition json_extract :: "string \<Rightarrow> string \<Rightarrow> string" where
  "json_extract target path = ''json_extract('' @ target @ '', '' @ sq @ ''$.'' @ path @ sq @ '')''"

fun elem_nested :: "string \<Rightarrow> string \<Rightarrow> (string \<times> jval) list \<Rightarrow> cstate \<Rightarrow> error + cstate" where
  "elem_nested target subOp [] st = Inr st"
| "elem_nested target subOp ((operator, operValue) # rest) st =
     (case elem_cmp operator of
        None \<Rightarrow> Inl (Error (''Nested operator '' @ operator @
                  '' not implemented for $elemMatch in SQLite''))
      | Some cmp \<Rightarrow>
          elem_nested target subOp rest
            (fst st @ [json_extract target subOp @ cmp @ ''?''], snd st @ [Val operValue]))"

fun elem_entries :: "string \<Rightarrow> (string \<times> jval) list \<Rightarrow> cstate \<Rightarrow> error + cstate" where
  "elem_entries target [] st = Inr st"
| "elem_entries target ((subOp, subValue) # rest) st =
     (if typeof subValue = TObject \<and> subValue \<noteq> JNull \<and> \<not> isArray subValue then
        (case elem_nested target subOp (the (entries subValue)) st of
           Inl e \<Rightarrow> Inl e
         | Inr st' \<Rightarrow> elem_entries target rest st')
      else
        elem_entries target rest
          (fst st @ [json_extract target subOp @ '' = '' @ ''?''], snd st @ [Val subValue]))"

definition exists_json_each :: "nat \<Rightarrow> string \<Rightarrow> string list \<Rightarrow> string" where
  "exists_json_each indent column conds =
     ''EXISTS ('' @ nl @ spaces (indent + 2) @ ''SELECT 1 FROM json_each('' @ column @ '') '' @ nl
       @ spaces (indent + 2) @ ''WHERE '' @ join '' AND '' conds @ nl @ spaces indent @ '')''"

text \<open>One iteration of the loop of \<open>SqliteAdapter.buildOperatorConditions\<close> (lines 209-328).
  The \<open>try\<close>/\<open>catch\<close> around the call of the base builder rewrites the base adapter's
  message and rethrows everything else.\<close>

definition sqlite_operator :: "string \<Rightarrow> string \<Rightarrow> jval \<Rightarrow> cstate \<Rightarrow> error + cstate" where
  "sqlite_operator column op v st =
     (if op = ''$regex'' then
        Inr (fst st @ [column @ '' LIKE '' @ ''?''], snd st @ [Val (JStr (likePattern (js_String v)))])
      else if op = ''$all'' \<or> op = ''$elemMatch'' \<or> op = ''$size'' then
        (if op = ''$all'' \<and> isArray v then
           (case v of
              JArr items \<Rightarrow>
                Inr (if items \<noteq> [] then
                       fst st @ [''('' @ join '' AND ''
                         (map (\<lambda>item. ''json_array_length(json_extract('' @ column @ '', '' @ sq
                                  @ ''$[?]'' @ sq @ '')) > 0'') items) @ '')'']
                     else fst st,
                     snd st @ map Json items)
            | _ \<Rightarrow> Inr st)
         else if op = ''$size'' \<and> typeof v = TNumber then
           Inr (fst st @ [''json_array_length('' @ column @ '') = '' @ ''?''], snd st @ [Val v])
         else if op = ''$elemMatch'' \<and> typeof v = TObject \<and> v \<noteq> JNull then
           (case elem_entries ''json_each.value'' (the (entries v)) ([], snd st) of
              Inl e \<Rightarrow> Inl e
            | Inr (ems, ps) \<Rightarrow>
                Inr (if ems \<noteq> [] then fst st @ [exists_json_each 12 column ems] else fst st, ps))
         else Inl (Error (''Operator '' @ op @
                 '' not fully implemented for SQLite with the provided value type'')))
      else
        (case buildOperatorConditions sqlite column (JObj [(op, v)]) (snd st) of
           Inl (Error m) \<Rightarrow>
             if sublist ''not implemented in base adapter'' m
             then Inl (Error (''Operator '' @ op @ '' not implemented for SQLite''))
             else Inl (Error m)
         | Inl e \<Rightarrow> Inl e
         | Inr (c, ps) \<Rightarrow> Inr (if c \<noteq> [] then fst st @ [c] else fst st, ps)))"

fun sqlite_operators :: "string \<Rightarrow> (string \<times> jval) list \<Rightarrow> cstate \<Rightarrow> error + cstate" where
  "sqlite_operators column [] st = Inr st"
| "sqlite_operators column ((op, v) # rest) st =
     (case sqlite_operator column op v st of
        Inl e \<Rightarrow> Inl e
      | Inr st' \<Rightarrow> sqlite_operators column rest st')"

definition sqlite_buildOperatorConditions ::
  "string \<Rightarrow> jval \<Rightarrow> bound list \<Rightarrow> error + (string \<times> bound list)" where
  "sqlite_buildOperatorConditions column operators prm =
     (case entries operators of
        None \<Rightarrow> Inl TypeError
      | Some es \<Rightarrow>
          (case sqlite_operators column es ([], prm) of
             Inl e \<Rightarrow> Inl e
           | Inr (conds, ps) \<Rightarrow> Inr (join '' AND '' conds, ps)))"

section \<open>The SQLite adapter: filters\<close>

text \<open>The schema registry of the adapter (\<open>FieldDefinition\<close>, \<open>CollectionSchema\<close>,
  \<open>collectionSchemas\<close>, \<open>isSchemaEnabled\<close>). A \<open>Map\<close> is an association list read with
  \<open>map_of\<close>.\<close>

record FieldDefinition =
  fd_type :: jval
  fd_isScalar :: bool
  fd_sqlType :: string
  fd_path :: string
  fd_isArray :: "bool option"

record CollectionSchema =
  cs_tableName :: string
  cs_fields :: "(string \<times> FieldDefinition) list"
  cs_hasExtraField :: bool

record adapter =
  collectionSchemas :: "(string \<times> CollectionSchema) list"
  isSchemaEnabled :: bool

definition getCollectionSchema :: "adapter \<Rightarrow> string \<Rightarrow> CollectionSchema option" where
  "getCollectionSchema a tbl = map_of (collectionSchemas a) tbl"

text \<open>\<open>SqliteAdapter.isArrayField\<close> (lines 1477-1487).\<close>

definition isArrayField :: "adapter \<Rightarrow> string \<Rightarrow> string \<Rightarrow> bool" where
  "isArrayField a tbl fieldName =
     (case getCollectionSchema a tbl of
        None \<Rightarrow> fieldName \<in> set [''tags'', ''skills'', ''favorites'', ''categories'']
      | Some schema \<Rightarrow>
          (case map_of (cs_fields schema) fieldName of
             None \<Rightarrow> fieldName \<in> set [''tags'', ''skills'', ''favorites'', ''categories'']
           | Some fd \<Rightarrow> (case fd_isArray fd of None \<Rightarrow> False | Some b \<Rightarrow> b)))"

definition starts_dollar :: "string \<Rightarrow> bool" where
  "starts_dollar key = prefix ''$'' key"

definition has_dot :: "string \<Rightarrow> bool" where
  "has_dot key = (CHR ''.'' \<in> set key)"

text \<open>\<open>key.split('.')[0]\<close> and \<open>key.split('.').slice(1).join('.')\<close>.\<close>

definition root_field :: "string \<Rightarrow> string" where
  "root_field key = takeWhile (\<lambda>c. c \<noteq> CHR ''.'') key"

definition json_path :: "string \<Rightarrow> string" where
  "json_path key = drop 1 (dropWhile (\<lambda>c. c \<noteq> CHR ''.'') key)"

text \<open>\<open>SqliteAdapter.preprocessFilter\<close> (lines 919-939). The spread \<open>{ ...filter }\<close> of an
  array is the object of its index/element pairs and the spread of a \<open>Date\<close> is the empty
  object.\<close>

fun preprocessFilter :: "adapter \<Rightarrow> string \<Rightarrow> jval \<Rightarrow> jval"
and preprocess_entries :: "adapter \<Rightarrow> string \<Rightarrow> (string \<times> jval) list \<Rightarrow> (string \<times> jval) list"
where
  "preprocessFilter a tbl (JObj kvs) = JObj (preprocess_entries a tbl kvs)"
| "preprocessFilter a tbl (JArr xs) = JObj (preprocess_entries a tbl (indexed xs))"
| "preprocessFilter a tbl (JDate i s) = JObj []"
| "preprocessFilter a tbl JUndefined = JUndefined"
| "preprocessFilter a tbl JNull = JNull"
| "preprocessFilter a tbl (JBool b) = JBool b"
| "preprocessFilter a tbl (JNum n) = JNum n"
| "preprocessFilter a tbl (JStr s) = JStr s"
| "preprocess_entries a tbl [] = []"
| "preprocess_entries a tbl ((key, v) # rest) =
     (key,
      if typeof v = TString \<and> isArrayField a tbl key then JObj [(''$in'', JArr [v])]
      else if truthy v \<and> typeof v = TObject \<and> \<not> isArray v then
        (case v of
           JObj kvs \<Rightarrow> JObj (preprocess_entries a tbl kvs)
         | _ \<Rightarrow> JObj [])
      else v) # preprocess_entries a tbl rest"

text \<open>\<open>SqliteAdapter.handleNestedPathInFilter\<close> (lines 1430-1472). \<open>value.map\<close> on a value
  that is not an array is a \<open>TypeError\<close>.\<close>

fun handleNestedPathInFilter :: "jval \<Rightarrow> error + jval"
and nested_entries :: "(string \<times> jval) list \<Rightarrow> error + (string \<times> jval) list"
and nested_items :: "jval list \<Rightarrow> error + jval list"
where
  "handleNestedPathInFilter (JObj kvs) =
     (case nested_entries kvs of Inl e \<Rightarrow> Inl e | Inr kvs' \<Rightarrow> Inr (JObj kvs'))"
| "handleNestedPathInFilter (JArr xs) = Inr (JObj (indexed xs))"
| "handleNestedPathInFilter (JDate i s) = Inr (JObj [])"
| "handleNestedPathInFilter JUndefined = Inr JUndefined"
| "handleNestedPathInFilter JNull = Inr JNull"
| "handleNestedPathInFilter (JBool b) = Inr (JBool b)"
| "handleNestedPathInFilter (JNum n) = Inr (JNum n)"
| "handleNestedPathInFilter (JStr s) = Inr (JStr s)"
| "nested_entries [] = Inr []"
| "nested_entries ((key, v) # rest) =
     (case (if is_logical key then
              (case v of
                 JArr items \<Rightarrow>
                   (case nested_items items of Inl e \<Rightarrow> Inl e | Inr items' \<Rightarrow> Inr (JArr items'))
               | _ \<Rightarrow> Inl TypeError)
            else if key = ''$not'' then handleNestedPathInFilter v
            else Inr v) of
        Inl e \<Rightarrow> Inl e
      | Inr v' \<Rightarrow>
          (case nested_entries rest of Inl e \<Rightarrow> Inl e | Inr rest' \<Rightarrow> Inr ((key, v') # rest')))"
| "nested_items [] = Inr []"
| "nested_items (x # xs) =
     (case handleNestedPathInFilter x of
        Inl e \<Rightarrow> Inl e
      | Inr x' \<Rightarrow> (case nested_items xs of Inl e \<Rightarrow> Inl e | Inr xs' \<Rightarrow> Inr (x' # xs')))"

text \<open>\<open>SqliteAdapter.addPathCondition\<close> (lines 1316-1330).\<close>

definition exists_path :: "nat \<Rightarrow> string \<Rightarrow> string \<Rightarrow> string" where
  "exists_path indent column path =
     ''EXISTS ('' @ nl @ spaces (indent + 2) @ ''SELECT 1 FROM json_each('' @ column @ '') '' @ nl
       @ spaces (indent + 2) @ ''WHERE '' @ json_extract ''json_each.value'' path @ '' = '' @ ''?''
       @ nl @ spaces indent @ '')''"

definition addPathCondition ::
  "adapter \<Rightarrow> cstate \<Rightarrow> string \<Rightarrow> string \<Rightarrow> jval \<Rightarrow> string \<Rightarrow> cstate" where
  "addPathCondition a st rootField jsonPath v tbl =
     (if isArrayField a tbl rootField then
        (fst st @ [exists_path 6 (escapeIdentifier sqlite rootField) jsonPath], snd st @ [Val v])
      else
        (fst st @ [json_extract (escapeIdentifier sqlite rootField) jsonPath @ '' = '' @ ''?''],
         snd st @ [Val v]))"

text \<open>The loop over an operator object in \<open>buildWhereConditionsForFilter\<close> (lines
  1247-1256): one call of the operator builder per \<open>$\<close>-key.\<close>

fun operator_keys :: "string \<Rightarrow> (string \<times> jval) list \<Rightarrow> cstate \<Rightarrow> error + cstate" where
  "operator_keys key [] st = Inr st"
| "operator_keys key ((opKey, opValue) # rest) st =
     (if starts_dollar opKey then
        (case sqlite_buildOperatorConditions (escapeIdentifier sqlite key) (JObj [(opKey, opValue)])
                (snd st) of
           Inl e \<Rightarrow> Inl e
         | Inr (c, ps) \<Rightarrow> operator_keys key rest (if c \<noteq> [] then fst st @ [c] else fst st, ps))
      else operator_keys key rest st)"

text \<open>One iteration of the loop of \<open>buildWhereConditionsForFilter\<close> (lines 1234-1301).\<close>

definition where_condition :: "adapter \<Rightarrow> string \<Rightarrow> string \<Rightarrow> jval \<Rightarrow> cstate \<Rightarrow> error + cstate" where
  "where_condition a tbl key v st =
     (if starts_dollar key then
        (case sqlite_buildOperatorConditions [] v (snd st) of
           Inl e \<Rightarrow> Inl e
         | Inr (c, ps) \<Rightarrow> Inr (if c \<noteq> [] then fst st @ [c] else fst st, ps))
      else if v \<noteq> JNull \<and> typeof v = TObject \<and> \<not> isArray v then
        (let es = the (entries v) in
         if list_ex (\<lambda>(k, _). starts_dollar k) es then operator_keys key es st
         else
           Inr (if es \<noteq> [] then
                  fst st @ [''('' @ join '' AND ''
                    (map (\<lambda>(nestedKey, _).
                       json_extract (escapeIdentifier sqlite key) nestedKey @ '' = '' @ ''?'') es)
                    @ '')'']
                else fst st,
                snd st @ map (\<lambda>(_, nestedValue). Val nestedValue) es))
      else
        (case v of
           JArr items \<Rightarrow>
             (let placeholders = join '', '' (map (\<lambda>_. ''?'') items) in
              if isArrayField a tbl key then
                Inr (fst st @ [''EXISTS (SELECT 1 FROM json_each('' @ escapeIdentifier sqlite key
                       @ '') WHERE json_each.value IN ('' @ placeholders @ ''))''],
                     snd st @ map Val items)
              else
                Inr (fst st @ [escapeIdentifier sqlite key @ '' IN ('' @ placeholders @ '')''],
                     snd st @ map Val items))
         | _ \<Rightarrow>
             if has_dot key then Inr (addPathCondition a st (root_field key) (json_path key) v tbl)
             else Inr (fst st @ [escapeIdentifier sqlite key @ '' = '' @ ''?''], snd st @ [Val v])))"

fun where_conditions ::
  "adapter \<Rightarrow> string \<Rightarrow> (string \<times> jval) list \<Rightarrow> cstate \<Rightarrow> error + cstate" where
  "where_conditions a tbl [] st = Inr st"
| "where_conditions a tbl ((key, v) # rest) st =
     (case where_condition a tbl key v st of
        Inl e \<Rightarrow> Inl e
      | Inr st' \<Rightarrow> where_conditions a tbl rest st')"

definition buildWhereConditionsForFilter :: "adapter \<Rightarrow> string \<Rightarrow> jval \<Rightarrow> error + cstate" where
  "buildWhereConditionsForFilter a tbl flt =
     (case entries flt of
        None \<Rightarrow> Inl TypeError
      | Some es \<Rightarrow> where_conditions a tbl es ([], []))"

text \<open>The schema-based path: \<open>buildArrayContainsValueClause\<close> (lines 1218-1221) and the
  templates of \<open>buildSchemaBasedWhereClause\<close>.\<close>

definition buildArrayContainsValueClause :: "string \<Rightarrow> jval \<Rightarrow> bound list \<Rightarrow> string \<times> bound list" where
  "buildArrayContainsValueClause fieldName v prm =
     (''EXISTS (SELECT 1 FROM json_each('' @ escapeIdentifier sqlite fieldName
        @ '') WHERE value = '' @ ''?'' @ '')'', prm @ [Val v])"

fun contains_clauses :: "string \<Rightarrow> jval list \<Rightarrow> bound list \<Rightarrow> string list \<times> bound list" where
  "contains_clauses fieldName [] prm = ([], prm)"
| "contains_clauses fieldName (item # items) prm =
     (case buildArrayContainsValueClause fieldName item prm of
        (c, ps) \<Rightarrow> (case contains_clauses fieldName items ps of (cs, ps') \<Rightarrow> (c # cs, ps')))"

definition json_root :: "string \<Rightarrow> string" where
  "json_root column = ''json_extract('' @ column @ '', '' @ sq @ ''$'' @ sq @ '')''"

definition exists_value :: "string \<Rightarrow> string" where
  "exists_value column =
     ''EXISTS ('' @ nl @ spaces 28 @ ''SELECT 1 FROM json_each('' @ column @ '')'' @ nl
       @ spaces 28 @ ''WHERE json_each.value = '' @ ''?'' @ nl @ spaces 26 @ '')''"

text \<open>The operator switch on a dotted key whose root is a non-scalar field (lines
  1002-1034); it has no default branch.\<close>

definition dotted_operator :: "string \<Rightarrow> string \<Rightarrow> jval \<Rightarrow> cstate \<Rightarrow> cstate" where
  "dotted_operator extract op opValue st =
     (if op = ''$eq'' then (fst st @ [extract @ '' = '' @ ''?''], snd st @ [Val opValue])
      else if op = ''$ne'' then (fst st @ [extract @ '' != '' @ ''?''], snd st @ [Val opValue])
      else if op = ''$gt'' then (fst st @ [extract @ '' > '' @ ''?''], snd st @ [Val opValue])
      else if op = ''$gte'' then (fst st @ [extract @ '' >= '' @ ''?''], snd st @ [Val opValue])
      else if op = ''$lt'' then (fst st @ [extract @ '' < '' @ ''?''], snd st @ [Val opValue])
      else if op = ''$lte'' then (fst st @ [extract @ '' <= '' @ ''?''], snd st @ [Val opValue])
      else if op = ''$exists'' then
        (fst st @ [extract @ '' '' @ (if truthy opValue then ''IS NOT NULL'' else ''IS NULL'')],
         snd st)
      else st)"

text \<open>A dotted key (lines 990-1057).\<close>

definition schema_dotted ::
  "adapter \<Rightarrow> CollectionSchema \<Rightarrow> string \<Rightarrow> jval \<Rightarrow> cstate \<Rightarrow> cstate" where
  "schema_dotted a schema key condition st =
     (let columnName = root_field key; jsonPath = json_path key;
          nonscalar = (case map_of (cs_fields schema) columnName of
                         None \<Rightarrow> False
                       | Some fd \<Rightarrow> \<not> fd_isScalar fd)
      in
      if nonscalar then
        (if typeof condition = TObject \<and> condition \<noteq> JNull \<and> \<not> isArray condition then
           fold (\<lambda>(op, opValue).
                   dotted_operator (json_extract (escapeIdentifier sqlite columnName) jsonPath)
                     op opValue)
             (the (entries condition)) st
         else if isArrayField a (cs_tableName schema) columnName then
           (fst st @ [exists_path 14 (escapeIdentifier sqlite columnName) jsonPath],
            snd st @ [Val condition])
         else
           (fst st @ [json_extract (escapeIdentifier sqlite columnName) jsonPath @ '' = '' @ ''?''],
            snd st @ [Val condition]))
      else if cs_hasExtraField schema then
        (fst st @ [json_extract (escapeIdentifier sqlite ''_extra'') key @ '' = '' @ ''?''],
         snd st @ [Val condition])
      else st)"

text \<open>The operator switch on a non-scalar field (lines 1091-1200); it has no default
  branch.\<close>

definition json_operator ::
  "adapter \<Rightarrow> string \<Rightarrow> string \<Rightarrow> string \<Rightarrow> jval \<Rightarrow> cstate \<Rightarrow> error + cstate" where
  "json_operator a tbl key op v st =
     (if op = ''$eq'' then
        Inr (fst st @ [json_root (escapeIdentifier sqlite key) @ '' = '' @ ''?''], snd st @ [Val v])
      else if op = ''$ne'' then
        Inr (fst st @ [json_root (escapeIdentifier sqlite key) @ '' != '' @ ''?''], snd st @ [Val v])
      else if op = ''$in'' then
        (case v of
           JArr items \<Rightarrow>
             if items = [] then Inr (fst st @ [''0 = 1''], snd st)
             else
               Inr (fst st @ [''('' @ join '' OR ''
                      (map (\<lambda>_. if isArrayField a tbl key
                                 then exists_value (escapeIdentifier sqlite key)
                                 else escapeIdentifier sqlite key @ '' = '' @ ''?'') items) @ '')''],
                    snd st @ map Val items)
         | _ \<Rightarrow> Inr st)
      else if op = ''$nin'' then
        (case v of
           JArr items \<Rightarrow>
             if items = [] then Inr (fst st @ [''1 = 1''], snd st)
             else
               Inr (fst st @ [''('' @ join '' AND ''
                      (map (\<lambda>_. ''NOT ('' @ escapeIdentifier sqlite key @ '' = '' @ ''?'' @ '')'')
                         items) @ '')''],
                    snd st @ map Json items)
         | _ \<Rightarrow> Inr st)
      else if op = ''$exists'' then
        Inr (fst st @ [json_root (escapeIdentifier sqlite key) @ '' ''
                        @ (if truthy v then ''IS NOT NULL'' else ''IS NULL'')], snd st)
      else if op = ''$elemMatch'' then
        (if typeof v = TObject \<and> v \<noteq> JNull then
           (case elem_entries ''value'' (the (entries v)) ([], snd st) of
              Inl e \<Rightarrow> Inl e
            | Inr (ems, ps) \<Rightarrow>
                Inr (if ems \<noteq> [] then
                       fst st @ [exists_json_each 22 (escapeIdentifier sqlite key) ems]
                     else fst st, ps))
         else Inr st)
      else Inr st)"

fun json_operators ::
  "adapter \<Rightarrow> string \<Rightarrow> string \<Rightarrow> (string \<times> jval) list \<Rightarrow> cstate \<Rightarrow> error + cstate" where
  "json_operators a tbl key [] st = Inr st"
| "json_operators a tbl key ((op, v) # rest) st =
     (case json_operator a tbl key op v st of
        Inl e \<Rightarrow> Inl e
      | Inr st' \<Rightarrow> json_operators a tbl key rest st')"

text \<open>A key without a dot (lines 1058-1204). Nothing is pushed for a key that is not a
  field of the schema.\<close>

definition schema_plain ::
  "adapter \<Rightarrow> CollectionSchema \<Rightarrow> string \<Rightarrow> jval \<Rightarrow> cstate \<Rightarrow> error + cstate" where
  "schema_plain a schema key condition st =
     (case map_of (cs_fields schema) key of
        None \<Rightarrow> Inr st
      | Some fieldDef \<Rightarrow>
          if fd_isScalar fieldDef then
            (if typeof condition = TObject \<and> condition \<noteq> JNull \<and> \<not> isArray condition then
               (case sqlite_buildOperatorConditions key condition (snd st) of
                  Inl e \<Rightarrow> Inl e
                | Inr (c, ps) \<Rightarrow> Inr (if c \<noteq> [] then fst st @ [c] else fst st, ps))
             else
               Inr (fst st @ [escapeIdentifier sqlite key @ '' = '' @ ''?''],
                    snd st @ [Val condition]))
          else
            (case condition of
               JArr items \<Rightarrow>
                 (case contains_clauses key items (snd st) of
                    (cs, ps) \<Rightarrow>
                      Inr (fst st @ [if length items = 1 then hd cs
                                     else ''('' @ join '' OR '' cs @ '')''], ps))
             | _ \<Rightarrow>
                 if typeof condition = TObject \<and> condition \<noteq> JNull then
                   json_operators a (cs_tableName schema) key (the (entries condition)) st
                 else Inr st))"

definition schema_field ::
  "adapter \<Rightarrow> CollectionSchema \<Rightarrow> string \<Rightarrow> jval \<Rightarrow> cstate \<Rightarrow> error + cstate" where
  "schema_field a schema key condition st =
     (if has_dot key then Inr (schema_dotted a schema key condition st)
      else schema_plain a schema key condition st)"

text \<open>The loop of \<open>buildSchemaBasedWhereClause\<close> over entries none of whose keys starts
  with \<open>$\<close>: used for the entries of a string or an array, whose keys are indices.\<close>

fun schema_flat ::
  "adapter \<Rightarrow> CollectionSchema \<Rightarrow> (string \<times> jval) list \<Rightarrow> cstate \<Rightarrow> error + cstate" where
  "schema_flat a schema [] st = Inr st"
| "schema_flat a schema ((key, v) # rest) st =
     (case schema_field a schema key v st of
        Inl e \<Rightarrow> Inl e
      | Inr st' \<Rightarrow> schema_flat a schema rest st')"

text \<open>\<open>SqliteAdapter.buildSchemaBasedWhereClause\<close> (lines 949-1208).\<close>

fun buildSchemaBasedWhereClause ::
  "adapter \<Rightarrow> CollectionSchema \<Rightarrow> jval \<Rightarrow> bound list \<Rightarrow> error + (string \<times> bound list)"
and schema_entries ::
  "adapter \<Rightarrow> CollectionSchema \<Rightarrow> (string \<times> jval) list \<Rightarrow> cstate \<Rightarrow> error + cstate"
and schema_subs ::
  "adapter \<Rightarrow> CollectionSchema \<Rightarrow> jval list \<Rightarrow> bound list \<Rightarrow> error + (string list \<times> bound list)"
where
  "buildSchemaBasedWhereClause a schema (JObj kvs) prm =
     (case schema_entries a schema kvs ([], prm) of
        Inl e \<Rightarrow> Inl e
      | Inr (conds, ps) \<Rightarrow> Inr (join '' AND '' conds, ps))"
| "buildSchemaBasedWhereClause a schema (JArr xs) prm =
     (case schema_flat a schema (indexed xs) ([], prm) of
        Inl e \<Rightarrow> Inl e
      | Inr (conds, ps) \<Rightarrow> Inr (join '' AND '' conds, ps))"
| "buildSchemaBasedWhereClause a schema (JStr s) prm =
     (case schema_flat a schema (indexed (map (\<lambda>c. JStr [c]) s)) ([], prm) of
        Inl e \<Rightarrow> Inl e
      | Inr (conds, ps) \<Rightarrow> Inr (join '' AND '' conds, ps))"
| "buildSchemaBasedWhereClause a schema JUndefined prm = Inl TypeError"
| "buildSchemaBasedWhereClause a schema JNull prm = Inl TypeError"
| "buildSchemaBasedWhereClause a schema (JBool b) prm = Inr ([], prm)"
| "buildSchemaBasedWhereClause a schema (JNum n) prm = Inr ([], prm)"
| "buildSchemaBasedWhereClause a schema (JDate i s) prm = Inr ([], prm)"
| "schema_entries a schema [] st = Inr st"
| "schema_entries a schema ((key, v) # rest) st =
     (if starts_dollar key then
        (if is_logical key \<and> isArray v then
           (case v of
              JArr subs \<Rightarrow>
                (case schema_subs a schema subs (snd st) of
                   Inl e \<Rightarrow> Inl e
                 | Inr (cs, ps) \<Rightarrow>
                     schema_entries a schema rest (fst st @ logical_condition key cs, ps))
            | _ \<Rightarrow> Inr st)
         else if key = ''$not'' \<and> typeof v = TObject \<and> v \<noteq> JNull then
           (case buildSchemaBasedWhereClause a schema v (snd st) of
              Inl e \<Rightarrow> Inl e
            | Inr (c, ps) \<Rightarrow>
                schema_entries a schema rest
                  (if c \<noteq> [] then fst st @ [''NOT ('' @ c @ '')''] else fst st, ps))
         else schema_entries a schema rest st)
      else
        (case schema_field a schema key v st of
           Inl e \<Rightarrow> Inl e
         | Inr st' \<Rightarrow> schema_entries a schema rest st'))"
| "schema_subs a schema [] prm = Inr ([], prm)"
| "schema_subs a schema (x # xs) prm =
     (case buildSchemaBasedWhereClause a schema x prm of
        Inl e \<Rightarrow> Inl e
      | Inr (c, ps) \<Rightarrow>
          (case schema_subs a schema xs ps of
             Inl e \<Rightarrow> Inl e
           | Inr (cs, ps') \<Rightarrow> Inr (c # cs, ps')))"

text \<open>\<open>String.prototype.trim\<close> on byte strings: the ASCII white space characters.\<close>

definition is_ws :: "char \<Rightarrow> bool" where
  "is_ws c = (c \<in> set [CHR 0x09, CHR 0x0A, CHR 0x0B, CHR 0x0C, CHR 0x0D, CHR 0x20])"

definition trim :: "string \<Rightarrow> string" where
  "trim s = rev (dropWhile is_ws (rev (dropWhile is_ws s)))"

text \<open>
  The two regular expressions of \<open>handleArrayFieldQuery\<close>, \<open>/"([^"]+)" IN \(\?\)/g\<close> and
  \<open>/"([^"]+)" = \?/g\<close>, have the form: a double quote, a non-empty run of characters other
  than the double quote, a double quote, a fixed text. At a given start the run is the
  longest one, since the next character must be the closing quote. \<open>match_quoted\<close> returns
  the captured name and the length of the match; \<open>regex_matches\<close> is the sequence of
  results of \<open>exec\<close> in the \<open>while\<close> loop: position, captured name, length of the match.
\<close>

definition match_quoted :: "string \<Rightarrow> string \<Rightarrow> (string \<times> nat) option" where
  "match_quoted lit r =
     (case r of
        [] \<Rightarrow> None
      | c # rest \<Rightarrow>
          if c \<noteq> CHR 0x22 then None
          else
            (let name = takeWhile (\<lambda>x. x \<noteq> CHR 0x22) rest;
                 after = dropWhile (\<lambda>x. x \<noteq> CHR 0x22) rest
             in if name \<noteq> [] \<and> prefix (CHR 0x22 # lit) after
                then Some (name, length name + length lit + 2)
                else None))"

function regex_matches :: "string \<Rightarrow> nat \<Rightarrow> string \<Rightarrow> (nat \<times> string \<times> nat) list" where
  "regex_matches lit pos [] = []"
| "regex_matches lit pos (c # cs) =
     (case match_quoted lit (c # cs) of
        None \<Rightarrow> regex_matches lit (pos + 1) cs
      | Some (name, len) \<Rightarrow>
          (pos, name, len) # regex_matches lit (pos + len) (drop (len - 1) cs))"
  by pat_completeness auto
termination
  by (relation "measure (\<lambda>(lit, pos, r). length r)") auto

declare regex_matches.simps [simp del]

text \<open>The body of the first \<open>while\<close> loop (lines 796-826); the state is
  \<open>sqlWithReplacements\<close>, \<open>newParams\<close> and \<open>paramIndex\<close>. Reading \<open>processedParams\<close>
  past its end gives \<open>undefined\<close>.\<close>

definition param_at :: "bound list \<Rightarrow> nat \<Rightarrow> bound" where
  "param_at ps i = (if i < length ps then ps ! i else Val JUndefined)"

definition in_clause_step ::
  "adapter \<Rightarrow> string \<Rightarrow> bound list \<Rightarrow> nat \<times> string \<times> nat
     \<Rightarrow> string \<times> bound list \<times> nat \<Rightarrow> string \<times> bound list \<times> nat" where
  "in_clause_step a tbl processedParams m st =
     (case m of (matchStart, fieldName, len) \<Rightarrow>
      case st of (sqlWithReplacements, newParams, paramIndex) \<Rightarrow>
        (case (if isArrayField a tbl fieldName then param_at processedParams paramIndex
               else Val JUndefined) of
           Val (JArr arrayValues) \<Rightarrow>
             (take matchStart sqlWithReplacements
                @ ''EXISTS (SELECT 1 FROM json_each('' @ dq @ fieldName @ dq
                @ '') WHERE value IN ('' @ join '', '' (map (\<lambda>_. ''?'') arrayValues) @ ''))''
                @ drop (matchStart + len) sqlWithReplacements,
              newParams @ map Val arrayValues,
              paramIndex + 1)
         | _ \<Rightarrow>
             (sqlWithReplacements, newParams @ [param_at processedParams paramIndex],
              paramIndex + 1)))"

text \<open>The body of the second \<open>while\<close> loop (lines 835-852).\<close>

definition equality_step ::
  "adapter \<Rightarrow> string \<Rightarrow> nat \<times> string \<times> nat \<Rightarrow> string \<Rightarrow> string" where
  "equality_step a tbl m sqlWithReplacements =
     (case m of (matchStart, fieldName, len) \<Rightarrow>
        if isArrayField a tbl fieldName then
          take matchStart sqlWithReplacements
            @ ''EXISTS (SELECT 1 FROM json_each('' @ dq @ fieldName @ dq @ '') WHERE value = ?)''
            @ drop (matchStart + len) sqlWithReplacements
        else sqlWithReplacements)"

text \<open>\<open>SqliteAdapter.handleArrayFieldQuery\<close> (lines 778-860).\<close>

definition handleArrayFieldQuery :: "adapter \<Rightarrow> string \<Rightarrow> bound list \<Rightarrow> string \<Rightarrow> SqlQuery" where
  "handleArrayFieldQuery a whereClause prm tbl =
     (if whereClause = [] \<or> trim whereClause = [] then \<lparr> sql = whereClause, params = prm \<rparr>
      else
        (case fold (in_clause_step a tbl prm) (regex_matches '' IN (?)'' 0 whereClause)
                (whereClause, [], 0) of
           (sql1, newParams, paramIndex) \<Rightarrow>
             (let sqlWithReplacements =
                    fold (equality_step a tbl) (regex_matches '' = ?'' 0 whereClause) sql1
              in if sqlWithReplacements \<noteq> whereClause then
                   \<lparr> sql = sqlWithReplacements,
                     params = (if newParams \<noteq> [] then newParams else prm) \<rparr>
                 else \<lparr> sql = whereClause, params = prm \<rparr>)))"

text \<open>\<open>SqliteAdapter.translateFilter\<close> (lines 869-914); \<open>tbl\<close> is the optional second
  argument, the empty string when absent.\<close>

definition sqlite_translateFilter :: "adapter \<Rightarrow> jval \<Rightarrow> string \<Rightarrow> error + SqlQuery" where
  "sqlite_translateFilter a flt tbl =
     (if \<not> truthy flt \<or> entries flt = Some [] then Inr \<lparr> sql = [], params = [] \<rparr>
      else
        (case handleNestedPathInFilter (preprocessFilter a tbl flt) of
           Inl e \<Rightarrow> Inl e
         | Inr finalFilter \<Rightarrow>
             (case (case (if isSchemaEnabled a then getCollectionSchema a tbl else None) of
                      Some schema \<Rightarrow> buildSchemaBasedWhereClause a schema finalFilter []
                    | None \<Rightarrow>
                        (case buildWhereConditionsForFilter a tbl finalFilter of
                           Inl e \<Rightarrow> Inl e
                         | Inr (conds, ps) \<Rightarrow> Inr (join '' AND '' conds, ps))) of
                Inl e \<Rightarrow> Inl e
              | Inr (whereClause, ps) \<Rightarrow>
                  Inr (handleArrayFieldQuery a
                         (if whereClause \<noteq> [] \<and> trim whereClause \<noteq> []
                          then ''WHERE '' @ whereClause else whereClause)
                         ps tbl))))"

text \<open>\<open>translateDelete\<close> is inherited from the base adapter and calls the overriding
  \<open>translateFilter\<close> without a table name.\<close>

definition sqlite_translateDelete :: "adapter \<Rightarrow> string \<Rightarrow> jval \<Rightarrow> error + SqlQuery" where
  "sqlite_translateDelete a tbl flt =
     (case sqlite_translateFilter a flt [] of
        Inl e \<Rightarrow> Inl e
      | Inr q \<Rightarrow>
          Inr \<lparr> sql = ''DELETE FROM '' @ escapeIdentifier sqlite tbl @ '' '' @ sql q,
                params = params q \<rparr>)"

section \<open>Updates\<close>

text \<open>
  An \<open>UpdateOperator\<close> object: each member is the value found under its key, \<open>undefined\<close>
  when the key is absent. \<open>num\<close> stands for the builtin \<open>Number\<close> applied to a string,
  with \<open>None\<close> for \<open>NaN\<close>; it is a parameter of the model.
\<close>

record UpdateOperator =
  u_set :: jval
  u_unset :: jval
  u_inc :: jval
  u_mul :: jval
  u_min :: jval
  u_max :: jval
  u_push :: jval
  u_pull :: jval
  u_addToSet :: jval
  u_setOnInsert :: jval

text \<open>\<open>if (update.$op) { for (... of Object.entries(update.$op)) ... }\<close>\<close>

definition present :: "jval \<Rightarrow> (string \<times> jval) list" where
  "present v = (if truthy v then the (entries v) else [])"

fun split_on :: "char \<Rightarrow> string \<Rightarrow> string list" where
  "split_on c [] = [[]]"
| "split_on c (x # xs) =
     (if x = c then [] # split_on c xs
      else (case split_on c xs of
              [] \<Rightarrow> [[x]]
            | p # ps \<Rightarrow> (x # p) # ps))"

text \<open>\<open>typeof value === 'object' ? JSON.stringify(value) : value\<close>, on a value and on a
  value that may already be a JSON string.\<close>

definition stringify_object :: "jval \<Rightarrow> bound" where
  "stringify_object v = (if typeof v = TObject then Json v else Val v)"

definition restringify :: "bound \<Rightarrow> bound" where
  "restringify b = (case b of Val v \<Rightarrow> stringify_object v | Json v \<Rightarrow> Json v)"

subsection \<open>The SET fragments of the SQLite adapter\<close>

definition array_element_clause :: "string \<Rightarrow> string option \<Rightarrow> string" where
  "array_element_clause rootField propertyPath =
     escapeIdentifier sqlite rootField @ '' = json_set('' @ escapeIdentifier sqlite rootField
       @ '', '' @ sq @ ''$['' @ sq @ '' || ? || '' @ sq @ '']''
       @ (case propertyPath of None \<Rightarrow> [] | Some pp \<Rightarrow> ''.'' @ pp) @ sq @ '', ?)''"

definition object_property_clause :: "string \<Rightarrow> string \<Rightarrow> string" where
  "object_property_clause rootField jsonPath =
     escapeIdentifier sqlite rootField @ '' = json_set('' @ escapeIdentifier sqlite rootField
       @ '', '' @ sq @ ''$.'' @ jsonPath @ sq @ '', ?)''"

definition push_clause :: "nat \<Rightarrow> string \<Rightarrow> string" where
  "push_clause indent key =
     escapeIdentifier sqlite key @ '' = CASE '' @ nl
       @ spaces (indent + 2) @ ''WHEN '' @ escapeIdentifier sqlite key @ '' IS NULL '' @ nl
       @ spaces (indent + 2) @ ''THEN json_array(?) '' @ nl
       @ spaces (indent + 2) @ ''ELSE json_insert('' @ escapeIdentifier sqlite key @ '', '' @ sq
       @ ''$[#]'' @ sq @ '', ?) '' @ nl
       @ spaces indent @ ''END''"

definition addToSet_clause :: "nat \<Rightarrow> string \<Rightarrow> string" where
  "addToSet_clause indent key =
     escapeIdentifier sqlite key @ '' = CASE '' @ nl
       @ spaces (indent + 2) @ ''WHEN '' @ escapeIdentifier sqlite key @ '' IS NULL '' @ nl
       @ spaces (indent + 2) @ ''THEN json_array(?) '' @ nl
       @ spaces (indent + 2) @ ''WHEN NOT EXISTS(SELECT 1 FROM json_each(''
       @ escapeIdentifier sqlite key @ '') WHERE json_each.value = ?) '' @ nl
       @ spaces (indent + 2) @ ''THEN json_insert('' @ escapeIdentifier sqlite key @ '', '' @ sq
       @ ''$[#]'' @ sq @ '', ?) '' @ nl
       @ spaces (indent + 2) @ ''ELSE '' @ escapeIdentifier sqlite key @ '' '' @ nl
       @ spaces indent @ ''END''"

definition pull_clause :: "nat \<Rightarrow> string \<Rightarrow> string" where
  "pull_clause indent key =
     escapeIdentifier sqlite key @ '' = ('' @ nl
       @ spaces (indent + 4) @ ''SELECT json_group_array(value) '' @ nl
       @ spaces (indent + 2) @ ''FROM json_each(COALESCE('' @ escapeIdentifier sqlite key
       @ '', json_array())) '' @ nl
       @ spaces (indent + 4) @ ''WHERE value != ?'' @ nl
       @ spaces indent @ '')''"

text \<open>The \<open>$set\<close> loop body of \<open>SqliteAdapter.buildSetClause\<close> (lines 349-383).\<close>

definition sqlite_set_entry :: "(string \<Rightarrow> jval option) \<Rightarrow> string \<times> jval \<Rightarrow> cstate \<Rightarrow> cstate" where
  "sqlite_set_entry num kv st =
     (case kv of (key, v) \<Rightarrow>
        if has_dot key then
          (let parts = split_on CHR ''.'' key; rootField = hd parts in
           case num (parts ! 1) of
             Some arrayIndex \<Rightarrow>
               (fst st @ [array_element_clause rootField
                            (if length parts = 2 then None else Some (join ''.'' (drop 2 parts)))],
                snd st @ [Val arrayIndex, Val v])
           | None \<Rightarrow>
               (fst st @ [object_property_clause rootField (join ''.'' (drop 1 parts))],
                snd st @ [Val v]))
        else (fst st @ [escapeIdentifier sqlite key @ '' = ?''], snd st @ [Val v]))"

definition sqlite_inc_entry :: "string \<times> jval \<Rightarrow> cstate \<Rightarrow> cstate" where
  "sqlite_inc_entry kv st =
     (case kv of (key, v) \<Rightarrow>
        (fst st @ [escapeIdentifier sqlite key @ '' = '' @ escapeIdentifier sqlite key @ '' + ?''],
         snd st @ [Val v]))"

definition sqlite_unset_entry :: "string \<times> jval \<Rightarrow> cstate \<Rightarrow> cstate" where
  "sqlite_unset_entry kv st =
     (case kv of (key, v) \<Rightarrow> (fst st @ [escapeIdentifier sqlite key @ '' = NULL''], snd st))"

definition sqlite_push_entry :: "string \<times> jval \<Rightarrow> cstate \<Rightarrow> cstate" where
  "sqlite_push_entry kv st =
     (case kv of (key, v) \<Rightarrow>
        (fst st @ [push_clause 10 key], snd st @ [stringify_object v, stringify_object v]))"

definition sqlite_addToSet_entry :: "string \<times> jval \<Rightarrow> cstate \<Rightarrow> cstate" where
  "sqlite_addToSet_entry kv st =
     (case kv of (key, v) \<Rightarrow>
        (fst st @ [addToSet_clause 10 key],
         snd st @ [stringify_object v, stringify_object v, stringify_object v]))"

definition sqlite_pull_entry :: "string \<times> jval \<Rightarrow> cstate \<Rightarrow> cstate" where
  "sqlite_pull_entry kv st =
     (case kv of (key, v) \<Rightarrow> (fst st @ [pull_clause 10 key], snd st @ [stringify_object v]))"

text \<open>\<open>SqliteAdapter.buildSetClause\<close> (lines 341-462): the blocks run in the order of the
  source, each over the entries of its operator, on the shared \<open>setClauses\<close> and
  \<open>params\<close>.\<close>

definition sqlite_buildSetClause ::
  "(string \<Rightarrow> jval option) \<Rightarrow> UpdateOperator \<Rightarrow> bound list \<Rightarrow> string \<times> bound list" where
  "sqlite_buildSetClause num update prm =
     (let st1 = fold (sqlite_set_entry num) (present (u_set update)) ([], prm);
          st2 = fold sqlite_inc_entry (present (u_inc update)) st1;
          st3 = fold sqlite_unset_entry (present (u_unset update)) st2;
          st4 = fold sqlite_push_entry (present (u_push update)) st3;
          st5 = fold sqlite_addToSet_entry (present (u_addToSet update)) st4;
          st6 = fold sqlite_pull_entry (present (u_pull update)) st5
      in (join '', '' (fst st6), snd st6))"

subsection \<open>The SET clause of the base adapter\<close>

text \<open>The abstract methods the base \<open>buildSetClause\<close> calls; each receives the two arrays
  and may change them.\<close>

record hooks =
  buildArrayElementSetClause :: "string \<Rightarrow> jval \<Rightarrow> string option \<Rightarrow> jval \<Rightarrow> cstate \<Rightarrow> cstate"
  buildObjectPropertySetClause :: "string \<Rightarrow> string \<Rightarrow> jval \<Rightarrow> cstate \<Rightarrow> cstate"
  buildPushOperation :: "string \<Rightarrow> bound \<Rightarrow> cstate \<Rightarrow> cstate"
  buildAddToSetOperation :: "string \<Rightarrow> bound \<Rightarrow> cstate \<Rightarrow> cstate"
  buildPullOperation :: "string \<Rightarrow> bound \<Rightarrow> cstate \<Rightarrow> cstate"

text \<open>\<open>BaseSqlAdapter.buildNestedSetClause\<close> (lines 452-473).\<close>

definition buildNestedSetClause ::
  "hooks \<Rightarrow> (string \<Rightarrow> jval option) \<Rightarrow> string \<Rightarrow> jval \<Rightarrow> cstate \<Rightarrow> cstate" where
  "buildNestedSetClause h num path v st =
     (let parts = split_on CHR ''.'' path; rootField = hd parts in
      case (if length parts \<ge> 2 then num (parts ! 1) else None) of
        Some arrayIndex \<Rightarrow>
          buildArrayElementSetClause h rootField arrayIndex
            (if length parts = 2 then None else Some (join ''.'' (drop 2 parts))) v st
      | None \<Rightarrow> buildObjectPropertySetClause h rootField (join ''.'' (drop 1 parts)) v st)"

definition base_set_entry ::
  "dialect \<Rightarrow> hooks \<Rightarrow> (string \<Rightarrow> jval option) \<Rightarrow> string \<times> jval \<Rightarrow> cstate \<Rightarrow> cstate" where
  "base_set_entry d h num kv st =
     (case kv of (key, v) \<Rightarrow>
        if has_dot key then buildNestedSetClause h num key v st
        else (fst st @ [escapeIdentifier d key @ '' = ''
                          @ getParameterPlaceholder d (length (snd st))],
              snd st @ [serializeValue v]))"

definition base_arith_entry :: "dialect \<Rightarrow> string \<Rightarrow> string \<times> jval \<Rightarrow> cstate \<Rightarrow> cstate" where
  "base_arith_entry d sign kv st =
     (case kv of (key, v) \<Rightarrow>
        (fst st @ [escapeIdentifier d key @ '' = '' @ escapeIdentifier d key @ sign
                     @ getParameterPlaceholder d (length (snd st))],
         snd st @ [Val v]))"

definition base_unset_entry :: "dialect \<Rightarrow> string \<times> jval \<Rightarrow> cstate \<Rightarrow> cstate" where
  "base_unset_entry d kv st =
     (case kv of (key, v) \<Rightarrow> (fst st @ [escapeIdentifier d key @ '' = NULL''], snd st))"

definition base_minmax_entry :: "dialect \<Rightarrow> string \<Rightarrow> string \<times> jval \<Rightarrow> cstate \<Rightarrow> cstate" where
  "base_minmax_entry d cmp kv st =
     (case kv of (key, v) \<Rightarrow>
        (fst st @ [escapeIdentifier d key @ '' = CASE WHEN '' @ escapeIdentifier d key @ cmp
                     @ getParameterPlaceholder d (length (snd st)) @ '' OR ''
                     @ escapeIdentifier d key @ '' IS NULL THEN ''
                     @ getParameterPlaceholder d (length (snd st)) @ '' ELSE ''
                     @ escapeIdentifier d key @ '' END''],
         snd st @ [serializeValue v]))"

text \<open>\<open>BaseSqlAdapter.buildSetClause\<close> (lines 364-442).\<close>

definition buildSetClause ::
  "dialect \<Rightarrow> hooks \<Rightarrow> (string \<Rightarrow> jval option) \<Rightarrow> UpdateOperator \<Rightarrow> bound list
     \<Rightarrow> string \<times> bound list" where
  "buildSetClause d h num update prm =
     (let st1 = fold (base_set_entry d h num) (present (u_set update)) ([], prm);
          st2 = fold (base_arith_entry d '' + '') (present (u_inc update)) st1;
          st3 = fold (base_arith_entry d '' * '') (present (u_mul update)) st2;
          st4 = fold (base_unset_entry d) (present (u_unset update)) st3;
          st5 = fold (base_minmax_entry d '' > '') (present (u_min update)) st4;
          st6 = fold (base_minmax_entry d '' < '') (present (u_max update)) st5;
          st7 = fold (\<lambda>(key, v). buildPushOperation h key (stringify_object v))
                  (present (u_push update)) st6;
          st8 = fold (\<lambda>(key, v). buildAddToSetOperation h key (stringify_object v))
                  (present (u_addToSet update)) st7;
          st9 = fold (\<lambda>(key, v). buildPullOperation h key (stringify_object v))
                  (present (u_pull update)) st8
      in (join '', '' (fst st9), snd st9))"

text \<open>The overrides of the abstract methods in the SQLite adapter (lines 1507-1619).\<close>

definition sqlite_hooks :: hooks where
  "sqlite_hooks =
     \<lparr> buildArrayElementSetClause =
         (\<lambda>field index propertyPath v st.
            (fst st @ [array_element_clause field propertyPath], snd st @ [Val index, Val v])),
       buildObjectPropertySetClause =
         (\<lambda>field propertyPath v st.
            (fst st @ [object_property_clause field propertyPath], snd st @ [Val v])),
       buildPushOperation =
         (\<lambda>field b st. (fst st @ [push_clause 6 field], snd st @ [restringify b, restringify b])),
       buildAddToSetOperation =
         (\<lambda>field b st.
            (fst st @ [addToSet_clause 6 field],
             snd st @ [restringify b, restringify b, restringify b])),
       buildPullOperation =
         (\<lambda>field b st. (fst st @ [pull_clause 6 field], snd st @ [restringify b])) \<rparr>"

text \<open>\<open>BaseSqlAdapter.translateUpdate\<close> (lines 91-102), and the same method as the SQLite
  adapter inherits it: there \<open>buildSetClause\<close> and \<open>translateFilter\<close> are the overriding
  methods, the latter called without a table name.\<close>

definition translateUpdate ::
  "dialect \<Rightarrow> hooks \<Rightarrow> (string \<Rightarrow> jval option) \<Rightarrow> string \<Rightarrow> UpdateOperator \<Rightarrow> jval
     \<Rightarrow> error + SqlQuery" where
  "translateUpdate d h num tbl update flt =
     (case buildSetClause d h num update [] of
        (setClause, ps) \<Rightarrow>
          (case translateFilter d flt None of
             Inl e \<Rightarrow> Inl e
           | Inr whereQuery \<Rightarrow>
               Inr \<lparr> sql = ''UPDATE '' @ escapeIdentifier d tbl @ '' SET '' @ setClause @ '' ''
                             @ sql whereQuery,
                     params = ps @ params whereQuery \<rparr>))"

definition sqlite_translateUpdate ::
  "adapter \<Rightarrow> (string \<Rightarrow> jval option) \<Rightarrow> string \<Rightarrow> UpdateOperator \<Rightarrow> jval \<Rightarrow> error + SqlQuery" where
  "sqlite_translateUpdate a num tbl update flt =
     (case sqlite_buildSetClause num update [] of
        (setClause, ps) \<Rightarrow>
          (case sqlite_translateFilter a flt [] of
             Inl e \<Rightarrow> Inl e
           | Inr whereQuery \<Rightarrow>
               Inr \<lparr> sql = ''UPDATE '' @ escapeIdentifier sqlite tbl @ '' SET '' @ setClause @ '' ''
                             @ sql whereQuery,
                     params = ps @ params whereQuery \<rparr>))"

section \<open>Inserts\<close>

text \<open>\<open>BaseSqlAdapter.translateInsert\<close> (lines 111-128): the placeholder of an entry is
  numbered by the position of the entry in the document.\<close>

definition translateInsert :: "dialect \<Rightarrow> string \<Rightarrow> jval \<Rightarrow> error + SqlQuery" where
  "translateInsert d tbl document =
     (case entries document of
        None \<Rightarrow> Inl TypeError
      | Some es \<Rightarrow>
          (let kept = filter (\<lambda>(index, key, v). v \<noteq> JUndefined) (enumerate 0 es) in
           Inr \<lparr> sql = ''INSERT INTO '' @ escapeIdentifier d tbl @ '' (''
                         @ join '', '' (map (\<lambda>(index, key, v). escapeIdentifier d key) kept)
                         @ '') VALUES (''
                         @ join '', '' (map (\<lambda>(index, key, v). getParameterPlaceholder d index) kept)
                         @ '')'',
                 params = map (\<lambda>(index, key, v). serializeValue v) kept \<rparr>))"

text \<open>Property assignment \<open>obj[key] = v\<close> on an object given by its entries, and the read
  \<open>obj[key]\<close> of an own property.\<close>

fun obj_set :: "(string \<times> 'a) list \<Rightarrow> string \<Rightarrow> 'a \<Rightarrow> (string \<times> 'a) list" where
  "obj_set [] key v = [(key, v)]"
| "obj_set ((k, w) # rest) key v =
     (if k = key then (key, v) # rest else (k, w) # obj_set rest key v)"

definition own_prop :: "(string \<times> jval) list \<Rightarrow> string \<Rightarrow> jval" where
  "own_prop es key = (case map_of es key of None \<Rightarrow> JUndefined | Some v \<Rightarrow> v)"

text \<open>Truthiness of a bound value: \<open>JSON.stringify\<close> gives \<open>undefined\<close> for \<open>undefined\<close>
  and a non-empty string otherwise.\<close>

definition bound_undefined :: "bound \<Rightarrow> bool" where
  "bound_undefined b = (b = Val JUndefined \<or> b = Json JUndefined)"

definition bound_truthy :: "bound \<Rightarrow> bool" where
  "bound_truthy b = (case b of Val v \<Rightarrow> truthy v | Json v \<Rightarrow> v \<noteq> JUndefined)"

text \<open>The loop body of \<open>processDocumentForInsert\<close> (lines 693-709); the state is \<open>result\<close>
  and \<open>extraFields\<close>.\<close>

definition insert_field ::
  "CollectionSchema \<Rightarrow> string \<times> jval
     \<Rightarrow> (string \<times> bound) list \<times> (string \<times> jval) list
     \<Rightarrow> (string \<times> bound) list \<times> (string \<times> jval) list" where
  "insert_field schema kv st =
     (case kv of (key, v) \<Rightarrow>
        (case map_of (cs_fields schema) key of
           Some fieldDef \<Rightarrow>
             (obj_set (fst st) key (if fd_isScalar fieldDef then Val v else Json v), snd st)
         | None \<Rightarrow>
             if key \<noteq> ''_id'' then (fst st, obj_set (snd st) key v) else st))"

text \<open>\<open>SqliteAdapter.processDocumentForInsert\<close> (lines 669-722).\<close>

definition processDocumentForInsert ::
  "adapter \<Rightarrow> jval \<Rightarrow> string \<Rightarrow> error + (string \<times> bound) list" where
  "processDocumentForInsert a doc tbl =
     (case entries doc of
        None \<Rightarrow> Inl TypeError
      | Some es \<Rightarrow>
          (case (if isSchemaEnabled a then getCollectionSchema a tbl else None) of
             None \<Rightarrow> Inr [(''_id'', Val (own_prop es ''_id'')), (''data'', Json doc)]
           | Some schema \<Rightarrow>
               (case fold (insert_field schema) es ([], []) of
                  (result, extraFields) \<Rightarrow>
                    (let result1 =
                           (if \<not> (case map_of result ''_id'' of
                                     None \<Rightarrow> False
                                   | Some b \<Rightarrow> bound_truthy b)
                               \<and> truthy (own_prop es ''_id'')
                            then obj_set result ''_id'' (Val (own_prop es ''_id''))
                            else result)
                     in Inr (if cs_hasExtraField schema \<and> extraFields \<noteq> []
                             then obj_set result1 ''_extra'' (Json (JObj extraFields))
                             else result1)))))"

text \<open>\<open>SqliteAdapter.translateInsert\<close> (lines 731-768).\<close>

definition sqlite_translateInsert :: "adapter \<Rightarrow> string \<Rightarrow> jval \<Rightarrow> error + SqlQuery" where
  "sqlite_translateInsert a tbl document =
     (case processDocumentForInsert a document tbl of
        Inl e \<Rightarrow> Inl e
      | Inr processedDoc \<Rightarrow>
          (case getCollectionSchema a tbl of
             None \<Rightarrow>
               Inr \<lparr> sql = ''INSERT INTO '' @ escapeIdentifier sqlite tbl @ '' ('' @ dq @ ''_id'' @ dq
                             @ '', '' @ dq @ ''data'' @ dq @ '') VALUES (?, ?)'',
                     params = [case map_of processedDoc ''_id'' of
                                 None \<Rightarrow> Val JUndefined | Some b \<Rightarrow> b,
                               case map_of processedDoc ''data'' of
                                 None \<Rightarrow> Val JUndefined | Some b \<Rightarrow> b] \<rparr>
           | Some schema \<Rightarrow>
               (let kept = filter (\<lambda>(key, b). \<not> bound_undefined b) processedDoc in
                Inr \<lparr> sql = ''INSERT INTO '' @ escapeIdentifier sqlite tbl @ '' (''
                              @ join '', '' (map (\<lambda>(key, b). escapeIdentifier sqlite key) kept)
                              @ '') VALUES ('' @ join '', '' (map (\<lambda>_. ''?'') kept) @ '')'',
                      params = map snd kept \<rparr>)))"

section \<open>Result rows\<close>








section \<open>The MySQL and PostgreSQL adapters: operators\<close>

definition mysql :: dialect where
  "mysql = \<lparr> escapeIdentifier = quote_ident (CHR 0x60),
             getParameterPlaceholder = (\<lambda>i. ''?'') \<rparr>"

definition postgres :: dialect where
  "postgres = \<lparr> escapeIdentifier = quote_ident (CHR 0x22),
                getParameterPlaceholder = (\<lambda>i. ''$'' @ nat_str (i + 1)) \<rparr>"

text \<open>\<open>conditions.push(`${escapedColumn} OP ${ph(params.length)}`); params.push(value)\<close>:
  both adapters bind the value as it is.\<close>

definition push_raw :: "dialect \<Rightarrow> string \<Rightarrow> string \<Rightarrow> bound \<Rightarrow> cstate \<Rightarrow> cstate" where
  "push_raw d lhs rhs b st =
     (fst st @ [lhs @ getParameterPlaceholder d (length (snd st)) @ rhs], snd st @ [b])"

text \<open>One iteration of the switch of \<open>MySqlAdapter.buildOperatorConditions\<close>
  (lines 142-218); \<open>ec\<close> is the escaped column.\<close>

definition mysql_operator :: "string \<Rightarrow> string \<Rightarrow> jval \<Rightarrow> cstate \<Rightarrow> cstate" where
  "mysql_operator ec op v st =
     (if op = ''$eq'' then push_raw mysql (ec @ '' = '') [] (Val v) st
      else if op = ''$ne'' then push_raw mysql (ec @ '' != '') [] (Val v) st
      else if op = ''$gt'' then push_raw mysql (ec @ '' > '') [] (Val v) st
      else if op = ''$gte'' then push_raw mysql (ec @ '' >= '') [] (Val v) st
      else if op = ''$lt'' then push_raw mysql (ec @ '' < '') [] (Val v) st
      else if op = ''$lte'' then push_raw mysql (ec @ '' <= '') [] (Val v) st
      else if op = ''$in'' then
        (case v of
           JArr (x # xs) \<Rightarrow>
             (fst st @ [ec @ '' IN ('' @ join '', ''
                 (map (\<lambda>_. getParameterPlaceholder mysql 0) (x # xs)) @ '')''],
              snd st @ map Val (x # xs))
         | _ \<Rightarrow> (fst st @ [''FALSE''], snd st))
      else if op = ''$nin'' then
        (case v of
           JArr (x # xs) \<Rightarrow>
             (fst st @ [ec @ '' NOT IN ('' @ join '', ''
                 (map (\<lambda>_. getParameterPlaceholder mysql 0) (x # xs)) @ '')''],
              snd st @ map Val (x # xs))
         | _ \<Rightarrow> (fst st @ [''TRUE''], snd st))
      else if op = ''$exists'' then
        (fst st @ [if truthy v then ec @ '' IS NOT NULL'' else ec @ '' IS NULL''], snd st)
      else if op = ''$regex'' then push_raw mysql (ec @ '' REGEXP '') [] (Val v) st
      else if op = ''$like'' then push_raw mysql (ec @ '' LIKE '') [] (Val v) st
      else if op = ''$contains'' then
        push_raw mysql (''JSON_CONTAINS('' @ ec @ '', '') '')'' (Json v) st
      else if op = ''$containsAny'' then
        (case v of
           JArr items \<Rightarrow>
             (fst st @ [''('' @ join '' OR ''
                 (map (\<lambda>_. ''JSON_CONTAINS('' @ ec @ '', '' @ ''?'' @ '')'') items) @ '')''],
              snd st @ map (\<lambda>_. Json v) items)
         | _ \<Rightarrow> st)
      else st)"

definition mysql_buildOperatorConditions ::
  "string \<Rightarrow> jval \<Rightarrow> bound list \<Rightarrow> error + (string \<times> bound list)" where
  "mysql_buildOperatorConditions column operators prm =
     (case entries operators of
        None \<Rightarrow> Inl TypeError
      | Some es \<Rightarrow>
          (case fold (\<lambda>(op, v). mysql_operator (escapeIdentifier mysql column) op v) es ([], prm) of
             (conds, ps) \<Rightarrow> Inr (join '' AND '' conds, ps)))"

text \<open>The placeholders of \<open>$in\<close>/\<open>$nin\<close> in the PostgreSQL adapter:
  \<open>value.map((_, i) => ph(params.length + i))\<close>.\<close>

definition numbered :: "dialect \<Rightarrow> nat \<Rightarrow> nat \<Rightarrow> string list" where
  "numbered d start n = map (\<lambda>i. getParameterPlaceholder d (start + i)) [0..<n]"

text \<open>One iteration of the switch of \<open>PostgresAdapter.buildOperatorConditions\<close>
  (lines 137-213).\<close>

definition postgres_operator :: "string \<Rightarrow> string \<Rightarrow> jval \<Rightarrow> cstate \<Rightarrow> cstate" where
  "postgres_operator ec op v st =
     (if op = ''$eq'' then push_raw postgres (ec @ '' = '') [] (Val v) st
      else if op = ''$ne'' then push_raw postgres (ec @ '' != '') [] (Val v) st
      else if op = ''$gt'' then push_raw postgres (ec @ '' > '') [] (Val v) st
      else if op = ''$gte'' then push_raw postgres (ec @ '' >= '') [] (Val v) st
      else if op = ''$lt'' then push_raw postgres (ec @ '' < '') [] (Val v) st
      else if op = ''$lte'' then push_raw postgres (ec @ '' <= '') [] (Val v) st
      else if op = ''$in'' then
        (case v of
           JArr (x # xs) \<Rightarrow>
             (fst st @ [ec @ '' IN ('' @ join '', ''
                 (numbered postgres (length (snd st)) (length (x # xs))) @ '')''],
              snd st @ map Val (x # xs))
         | _ \<Rightarrow> (fst st @ [''FALSE''], snd st))
      else if op = ''$nin'' then
        (case v of
           JArr (x # xs) \<Rightarrow>
             (fst st @ [ec @ '' NOT IN ('' @ join '', ''
                 (numbered postgres (length (snd st)) (length (x # xs))) @ '')''],
              snd st @ map Val (x # xs))
         | _ \<Rightarrow> (fst st @ [''TRUE''], snd st))
      else if op = ''$exists'' then
        (fst st @ [if truthy v then ec @ '' IS NOT NULL'' else ec @ '' IS NULL''], snd st)
      else if op = ''$regex'' then push_raw postgres (ec @ '' ~ '') [] (Val v) st
      else if op = ''$like'' then push_raw postgres (ec @ '' LIKE '') [] (Val v) st
      else if op = ''$ilike'' then push_raw postgres (ec @ '' ILIKE '') [] (Val v) st
      else if op = ''$contains'' then
        push_raw postgres (ec @ '' @> '') ''::jsonb'' (Json (JArr [v])) st
      else if op = ''$containsAny'' then
        (if isArray v then push_raw postgres (ec @ '' ?| '') [] (Val v) st else st)
      else st)"

definition postgres_buildOperatorConditions ::
  "string \<Rightarrow> jval \<Rightarrow> bound list \<Rightarrow> error + (string \<times> bound list)" where
  "postgres_buildOperatorConditions column operators prm =
     (case entries operators of
        None \<Rightarrow> Inl TypeError
      | Some es \<Rightarrow>
          (case fold (\<lambda>(op, v). postgres_operator (escapeIdentifier postgres column) op v) es
                  ([], prm) of
             (conds, ps) \<Rightarrow> Inr (join '' AND '' conds, ps)))"



text \<open>A newly constructed adapter: no schema registered, \<open>isSchemaEnabled = false\<close>; and an
  update object without any operator.\<close>

definition new_adapter :: adapter where
  "new_adapter = \<lparr> collectionSchemas = [], isSchemaEnabled = False \<rparr>"

definition no_update :: UpdateOperator where
  "no_update = \<lparr> u_set = JUndefined, u_unset = JUndefined, u_inc = JUndefined, u_mul = JUndefined,
                  u_min = JUndefined, u_max = JUndefined, u_push = JUndefined, u_pull = JUndefined,
                  u_addToSet = JUndefined, u_setOnInsert = JUndefined \<rparr>"

text \<open>The number of \<open>?\<close> placeholders of a text, and a text without its parentheses.\<close>

definition placeholders :: "string \<Rightarrow> nat" where
  "placeholders s = length (filter (\<lambda>c. c = CHR ''?'') s)"


text \<open>
  A step on the two arrays appends to the clauses when the clauses it adds and the
  parameters it leaves do not depend on the clauses collected before. \<open>run_blocks\<close> runs
  a list of blocks, each from an empty clause list, threads the parameters through them
  and concatenates their clauses in the order of the list.
\<close>

definition clause_appending :: "(cstate \<Rightarrow> cstate) \<Rightarrow> bool" where
  "clause_appending f = (\<forall>cs ps. f (cs, ps) = (cs @ fst (f ([], ps)), snd (f ([], ps))))"

definition appending_hooks :: "hooks \<Rightarrow> bool" where
  "appending_hooks h =
     ((\<forall>field index pp v. clause_appending (buildArrayElementSetClause h field index pp v))
      \<and> (\<forall>field pp v. clause_appending (buildObjectPropertySetClause h field pp v))
      \<and> (\<forall>field b. clause_appending (buildPushOperation h field b))
      \<and> (\<forall>field b. clause_appending (buildAddToSetOperation h field b))
      \<and> (\<forall>field b. clause_appending (buildPullOperation h field b)))"

fun run_blocks :: "(cstate \<Rightarrow> cstate) list \<Rightarrow> bound list \<Rightarrow> cstate" where
  "run_blocks [] ps = ([], ps)"
| "run_blocks (b # bs) ps =
     (case b ([], ps) of
        (cs, ps') \<Rightarrow> (case run_blocks bs ps' of (cs', ps'') \<Rightarrow> (cs @ cs', ps'')))"

text \<open>An adapter with one registered schema, for the table \<open>users\<close>: a scalar field
  \<open>name\<close> and an array field \<open>tags\<close>; the schema-based path is enabled.\<close>

definition users_schema :: CollectionSchema where
  "users_schema =
     \<lparr> cs_tableName = ''users'',
       cs_fields =
         [(''name'', \<lparr> fd_type = JStr ''string'', fd_isScalar = True, fd_sqlType = ''TEXT'',
                       fd_path = ''name'', fd_isArray = Some False \<rparr>),
          (''tags'', \<lparr> fd_type = JStr ''array'', fd_isScalar = False, fd_sqlType = ''TEXT'',
                       fd_path = ''tags'', fd_isArray = Some True \<rparr>)],
       cs_hasExtraField = False \<rparr>"

definition users_adapter :: adapter where
  "users_adapter = \<lparr> collectionSchemas = [(''users'', users_schema)], isSchemaEnabled = True \<rparr>"

text \<open>
  \<open>blank v\<close> is \<open>v\<close> with every character of every string value replaced by \<open>x\<close>; keys,
  numbers, booleans, dates and the structure are kept. \<open>blank_update\<close> does so in every
  member of an update object. \<open>shape\<close> is what the post-processing of the SQLite adapter
  can see of a bound parameter: whether it is an array, and of which length.
\<close>

fun blank :: "jval \<Rightarrow> jval"
and blank_list :: "jval list \<Rightarrow> jval list"
and blank_entries :: "(string \<times> jval) list \<Rightarrow> (string \<times> jval) list"
where
  "blank JUndefined = JUndefined"
| "blank JNull = JNull"
| "blank (JBool b) = JBool b"
| "blank (JNum n) = JNum n"
| "blank (JStr s) = JStr (replicate (length s) CHR ''x'')"
| "blank (JDate i s) = JDate i s"
| "blank (JArr xs) = JArr (blank_list xs)"
| "blank (JObj kvs) = JObj (blank_entries kvs)"
| "blank_list [] = []"
| "blank_list (x # xs) = blank x # blank_list xs"
| "blank_entries [] = []"
| "blank_entries ((key, v) # rest) = (key, blank v) # blank_entries rest"

definition blank_update :: "UpdateOperator \<Rightarrow> UpdateOperator" where
  "blank_update u =
     \<lparr> u_set = blank (u_set u), u_unset = blank (u_unset u), u_inc = blank (u_inc u),
       u_mul = blank (u_mul u), u_min = blank (u_min u), u_max = blank (u_max u),
       u_push = blank (u_push u), u_pull = blank (u_pull u), u_addToSet = blank (u_addToSet u),
       u_setOnInsert = blank (u_setOnInsert u) \<rparr>"

definition shape :: "bound \<Rightarrow> nat option" where
  "shape b = (case b of Val (JArr xs) \<Rightarrow> Some (length xs) | _ \<Rightarrow> None)"

text \<open>The text of a query, or the error raised instead.\<close>

definition sql_of :: "error + SqlQuery \<Rightarrow> error + string" where
  "sql_of r = map_sum id sql r"

section \<open>Properties\<close>

subsection \<open>Operator keys without a case\<close>







subsection \<open>Comparison with null\<close>

lemma base_null_comparisons:
  "buildOperatorConditions d column (JObj [(''$eq'', JNull)]) prm
     = Inr (''('' @ column @ '' IS NULL)'', prm)"
  "buildOperatorConditions d column (JObj [(''$ne'', JNull)]) prm
     = Inr (''('' @ column @ '' IS NOT NULL)'', prm)"
  by (simp_all add: buildOperatorConditions_def base_operator_def)

lemma sqlite_null_comparisons:
  "sqlite_buildOperatorConditions column (JObj [(''$eq'', JNull)]) prm
     = Inr (''('' @ column @ '' IS NULL)'', prm)"
  "sqlite_buildOperatorConditions column (JObj [(''$ne'', JNull)]) prm
     = Inr (''('' @ column @ '' IS NOT NULL)'', prm)"
  by (simp_all add: sqlite_buildOperatorConditions_def sqlite_operator_def
      buildOperatorConditions_def base_operator_def)

text \<open>
  C3. The base and the SQLite builders emit \<open>IS NULL\<close> and \<open>IS NOT NULL\<close> (the two lemmas
  above). The MySQL and the PostgreSQL builders do not: for \<open>{$eq: null}\<close> and \<open>{$ne: null}\<close>
  on the column \<open>name\<close> they emit a comparison with a placeholder and bind \<open>null\<close>.
\<close>

theorem C3_mysql_postgres_null:
  "mysql_buildOperatorConditions ''name'' (JObj [(''$eq'', JNull)]) []
     = Inr ([CHR 0x60] @ ''name'' @ [CHR 0x60] @ '' = ?'', [Val JNull])
   \<and> mysql_buildOperatorConditions ''name'' (JObj [(''$ne'', JNull)]) []
     = Inr ([CHR 0x60] @ ''name'' @ [CHR 0x60] @ '' != ?'', [Val JNull])
   \<and> postgres_buildOperatorConditions ''name'' (JObj [(''$eq'', JNull)]) []
     = Inr (dq @ ''name'' @ dq @ '' = $1'', [Val JNull])
   \<and> postgres_buildOperatorConditions ''name'' (JObj [(''$ne'', JNull)]) []
     = Inr (dq @ ''name'' @ dq @ '' != $1'', [Val JNull])"
  by code_simp

subsection \<open>The LIKE pattern of the SQLite adapter\<close>








subsection \<open>Flattened keys of a result row\<close>













subsection \<open>The order of the SET fragments\<close>

lemma clause_appendingD:
  "clause_appending f \<Longrightarrow> f (cs, ps) = (cs @ fst (f ([], ps)), snd (f ([], ps)))"
  unfolding clause_appending_def by blast

lemma clause_appending_comp:
  assumes "clause_appending f" "clause_appending g"
  shows "clause_appending (\<lambda>st. g (f st))"
proof -
  have "g (f (cs, ps)) = (cs @ fst (g (f ([], ps))), snd (g (f ([], ps))))" for cs ps
  proof -
    obtain c1 p1 where f0: "f ([], ps) = (c1, p1)" by (cases "f ([], ps)")
    obtain c2 p2 where g0: "g ([], p1) = (c2, p2)" by (cases "g ([], p1)")
    have f1: "f (cs, ps) = (cs @ c1, p1)"
      using clause_appendingD [OF assms(1), of cs ps] by (simp add: f0)
    have g1: "g (cs @ c1, p1) = ((cs @ c1) @ c2, p2)"
      using clause_appendingD [OF assms(2), of "cs @ c1" p1] by (simp add: g0)
    have g2: "g (c1, p1) = (c1 @ c2, p2)"
      using clause_appendingD [OF assms(2), of c1 p1] by (simp add: g0)
    show ?thesis by (simp add: f0 f1 g1 g2)
  qed
  then show ?thesis unfolding clause_appending_def by blast
qed

lemma clause_appending_id: "clause_appending (\<lambda>st. st)"
  by (simp add: clause_appending_def)

lemma clause_appending_fold:
  assumes "\<And>x. clause_appending (f x)"
  shows "clause_appending (fold f xs)"
proof (induction xs)
  case Nil
  show ?case using clause_appending_id by (simp add: id_def)
next
  case (Cons x xs)
  have "fold f (x # xs) = (\<lambda>st. fold f xs (f x st))" by (simp add: fun_eq_iff)
  then show ?case using clause_appending_comp [OF assms [of x] Cons.IH] by simp
qed

lemma clause_appending_push: "clause_appending (\<lambda>st. (fst st @ C (snd st), P (snd st)))"
  by (simp add: clause_appending_def)

lemma run_blocks_step:
  assumes "clause_appending b"
  shows "b (fst (run_blocks bs ps) , snd (run_blocks bs ps)) = run_blocks (bs @ [b]) ps"
proof (induction bs arbitrary: ps)
  case Nil
  then show ?case by (simp split: prod.splits)
next
  case (Cons a bs)
  obtain c1 p1 where a0: "a ([], ps) = (c1, p1)" by (cases "a ([], ps)")
  obtain c2 p2 where r: "run_blocks bs p1 = (c2, p2)" by (cases "run_blocks bs p1")
  obtain c3 p3 where r3: "run_blocks (bs @ [b]) p1 = (c3, p3)" by (cases "run_blocks (bs @ [b]) p1")
  from Cons.IH [of p1] r r3 have ih: "b (c2, p2) = (c3, p3)" by simp
  have "b (c1 @ c2, p2) = ((c1 @ c2) @ fst (b ([], p2)), snd (b ([], p2)))"
    by (rule clause_appendingD [OF assms])
  moreover have "b (c2, p2) = (c2 @ fst (b ([], p2)), snd (b ([], p2)))"
    by (rule clause_appendingD [OF assms])
  ultimately have "b (c1 @ c2, p2) = (c1 @ c3, p3)" using ih by simp
  then show ?case by (simp add: a0 r r3)
qed


lemma buildNestedSetClause_appending:
  assumes "appending_hooks h"
  shows "clause_appending (buildNestedSetClause h num path v)"
proof -
  let ?parts = "split_on CHR ''.'' path"
  let ?idx = "if length ?parts \<ge> 2 then num (?parts ! 1) else None"
  have eq: "buildNestedSetClause h num path v =
      (case ?idx of
         Some arrayIndex \<Rightarrow>
           buildArrayElementSetClause h (hd ?parts) arrayIndex
             (if length ?parts = 2 then None else Some (join ''.'' (drop 2 ?parts))) v
       | None \<Rightarrow> buildObjectPropertySetClause h (hd ?parts) (join ''.'' (drop 1 ?parts)) v)"
    by (simp add: fun_eq_iff buildNestedSetClause_def Let_def split: option.splits)
  show ?thesis
    unfolding eq using assms by (cases ?idx) (simp_all add: appending_hooks_def)
qed

lemma base_set_entry_appending:
  assumes "appending_hooks h"
  shows "clause_appending (base_set_entry d h num kv)"
proof (cases kv)
  case (Pair key v)
  show ?thesis
  proof (cases "has_dot key")
    case True
    then have "base_set_entry d h num kv = buildNestedSetClause h num key v"
      by (simp add: fun_eq_iff base_set_entry_def Pair)
    then show ?thesis by (simp add: buildNestedSetClause_appending [OF assms])
  next
    case False
    then show ?thesis
      by (simp add: base_set_entry_def Pair clause_appending_def)
  qed
qed

lemma base_arith_entry_appending: "clause_appending (base_arith_entry d sign kv)"
  by (cases kv) (simp add: base_arith_entry_def clause_appending_def)

lemma base_unset_entry_appending: "clause_appending (base_unset_entry d kv)"
  by (cases kv) (simp add: base_unset_entry_def clause_appending_def)

lemma base_minmax_entry_appending: "clause_appending (base_minmax_entry d cmp kv)"
  by (cases kv) (simp add: base_minmax_entry_def clause_appending_def)

lemma hook_entries_appending:
  assumes "appending_hooks h"
  shows "clause_appending (case kv of (key, v) \<Rightarrow> buildPushOperation h key (stringify_object v))"
    and "clause_appending (case kv of (key, v) \<Rightarrow> buildAddToSetOperation h key (stringify_object v))"
    and "clause_appending (case kv of (key, v) \<Rightarrow> buildPullOperation h key (stringify_object v))"
  using assms by (cases kv; simp add: appending_hooks_def)+

lemma run_blocks_snoc:
  assumes "clause_appending b" "st = run_blocks bs ps"
  shows "b st = run_blocks (bs @ [b]) ps"
  using run_blocks_step [OF assms(1), of bs ps] assms(2) by simp

lemma base_fragment_order:
  assumes "appending_hooks h"
  shows "buildSetClause d h num update prm =
     (case run_blocks
        [fold (base_set_entry d h num) (present (u_set update)),
         fold (base_arith_entry d '' + '') (present (u_inc update)),
         fold (base_arith_entry d '' * '') (present (u_mul update)),
         fold (base_unset_entry d) (present (u_unset update)),
         fold (base_minmax_entry d '' > '') (present (u_min update)),
         fold (base_minmax_entry d '' < '') (present (u_max update)),
         fold (\<lambda>(key, v). buildPushOperation h key (stringify_object v)) (present (u_push update)),
         fold (\<lambda>(key, v). buildAddToSetOperation h key (stringify_object v))
           (present (u_addToSet update)),
         fold (\<lambda>(key, v). buildPullOperation h key (stringify_object v)) (present (u_pull update))]
        prm of
      (clauses, ps) \<Rightarrow> (join '', '' clauses, ps))"
proof -
  let ?b1 = "fold (base_set_entry d h num) (present (u_set update))"
  let ?b2 = "fold (base_arith_entry d '' + '') (present (u_inc update))"
  let ?b3 = "fold (base_arith_entry d '' * '') (present (u_mul update))"
  let ?b4 = "fold (base_unset_entry d) (present (u_unset update))"
  let ?b5 = "fold (base_minmax_entry d '' > '') (present (u_min update))"
  let ?b6 = "fold (base_minmax_entry d '' < '') (present (u_max update))"
  let ?b7 = "fold (\<lambda>(key, v). buildPushOperation h key (stringify_object v)) (present (u_push update))"
  let ?b8 = "fold (\<lambda>(key, v). buildAddToSetOperation h key (stringify_object v))
           (present (u_addToSet update))"
  let ?b9 = "fold (\<lambda>(key, v). buildPullOperation h key (stringify_object v)) (present (u_pull update))"
  have a1: "clause_appending ?b1"
    by (rule clause_appending_fold) (rule base_set_entry_appending [OF assms])
  have a2: "clause_appending ?b2" and a3: "clause_appending ?b3"
    by (rule clause_appending_fold, rule base_arith_entry_appending)+
  have a4: "clause_appending ?b4"
    by (rule clause_appending_fold) (rule base_unset_entry_appending)
  have a5: "clause_appending ?b5" and a6: "clause_appending ?b6"
    by (rule clause_appending_fold, rule base_minmax_entry_appending)+
  have a7: "clause_appending ?b7"
    by (rule clause_appending_fold) (rule hook_entries_appending [OF assms])
  have a8: "clause_appending ?b8"
    by (rule clause_appending_fold) (rule hook_entries_appending [OF assms])
  have a9: "clause_appending ?b9"
    by (rule clause_appending_fold) (rule hook_entries_appending [OF assms])
  have s1: "?b1 ([], prm) = run_blocks [?b1] prm"
    using run_blocks_snoc [OF a1, of "([], prm)" "[]" prm] by simp
  have s2: "?b2 (?b1 ([], prm)) = run_blocks [?b1, ?b2] prm"
    using run_blocks_snoc [OF a2 s1] by simp
  have s3: "?b3 (?b2 (?b1 ([], prm))) = run_blocks [?b1, ?b2, ?b3] prm"
    using run_blocks_snoc [OF a3 s2] by simp
  have s4: "?b4 (?b3 (?b2 (?b1 ([], prm)))) = run_blocks [?b1, ?b2, ?b3, ?b4] prm"
    using run_blocks_snoc [OF a4 s3] by simp
  have s5: "?b5 (?b4 (?b3 (?b2 (?b1 ([], prm))))) = run_blocks [?b1, ?b2, ?b3, ?b4, ?b5] prm"
    using run_blocks_snoc [OF a5 s4] by simp
  have s6: "?b6 (?b5 (?b4 (?b3 (?b2 (?b1 ([], prm)))))) = run_blocks [?b1, ?b2, ?b3, ?b4, ?b5, ?b6] prm"
    using run_blocks_snoc [OF a6 s5] by simp
  have s7: "?b7 (?b6 (?b5 (?b4 (?b3 (?b2 (?b1 ([], prm)))))))
      = run_blocks [?b1, ?b2, ?b3, ?b4, ?b5, ?b6, ?b7] prm"
    using run_blocks_snoc [OF a7 s6] by simp
  have s8: "?b8 (?b7 (?b6 (?b5 (?b4 (?b3 (?b2 (?b1 ([], prm))))))))
      = run_blocks [?b1, ?b2, ?b3, ?b4, ?b5, ?b6, ?b7, ?b8] prm"
    using run_blocks_snoc [OF a8 s7] by simp
  have s9: "?b9 (?b8 (?b7 (?b6 (?b5 (?b4 (?b3 (?b2 (?b1 ([], prm)))))))))
      = run_blocks [?b1, ?b2, ?b3, ?b4, ?b5, ?b6, ?b7, ?b8, ?b9] prm"
    using run_blocks_snoc [OF a9 s8] by simp
  have "buildSetClause d h num update prm
      = (case ?b9 (?b8 (?b7 (?b6 (?b5 (?b4 (?b3 (?b2 (?b1 ([], prm))))))))) of
           (clauses, ps) \<Rightarrow> (join '', '' clauses, ps))"
    by (simp add: buildSetClause_def Let_def split: prod.splits)
  then show ?thesis
    by (simp only: s9)
qed


lemma sqlite_entries_appending:
  "clause_appending (sqlite_set_entry num kv)"
  "clause_appending (sqlite_inc_entry kv)"
  "clause_appending (sqlite_unset_entry kv)"
  "clause_appending (sqlite_push_entry kv)"
  "clause_appending (sqlite_addToSet_entry kv)"
  "clause_appending (sqlite_pull_entry kv)"
  by (cases kv; simp add: sqlite_set_entry_def sqlite_inc_entry_def sqlite_unset_entry_def
        sqlite_push_entry_def sqlite_addToSet_entry_def sqlite_pull_entry_def
        clause_appending_def Let_def split: option.splits)+

lemma sqlite_fragment_order:
  "sqlite_buildSetClause num update prm =
     (case run_blocks
        [fold (sqlite_set_entry num) (present (u_set update)),
         fold sqlite_inc_entry (present (u_inc update)),
         fold sqlite_unset_entry (present (u_unset update)),
         fold sqlite_push_entry (present (u_push update)),
         fold sqlite_addToSet_entry (present (u_addToSet update)),
         fold sqlite_pull_entry (present (u_pull update))]
        prm of
      (clauses, ps) \<Rightarrow> (join '', '' clauses, ps))"
proof -
  let ?b1 = "fold (sqlite_set_entry num) (present (u_set update))"
  let ?b2 = "fold sqlite_inc_entry (present (u_inc update))"
  let ?b3 = "fold sqlite_unset_entry (present (u_unset update))"
  let ?b4 = "fold sqlite_push_entry (present (u_push update))"
  let ?b5 = "fold sqlite_addToSet_entry (present (u_addToSet update))"
  let ?b6 = "fold sqlite_pull_entry (present (u_pull update))"
  have a1: "clause_appending ?b1" and a2: "clause_appending ?b2" and a3: "clause_appending ?b3"
    and a4: "clause_appending ?b4" and a5: "clause_appending ?b5" and a6: "clause_appending ?b6"
    by (rule clause_appending_fold, rule sqlite_entries_appending)+
  have s1: "?b1 ([], prm) = run_blocks [?b1] prm"
    using run_blocks_snoc [OF a1, of "([], prm)" "[]" prm] by simp
  have s2: "?b2 (?b1 ([], prm)) = run_blocks [?b1, ?b2] prm"
    using run_blocks_snoc [OF a2 s1] by simp
  have s3: "?b3 (?b2 (?b1 ([], prm))) = run_blocks [?b1, ?b2, ?b3] prm"
    using run_blocks_snoc [OF a3 s2] by simp
  have s4: "?b4 (?b3 (?b2 (?b1 ([], prm)))) = run_blocks [?b1, ?b2, ?b3, ?b4] prm"
    using run_blocks_snoc [OF a4 s3] by simp
  have s5: "?b5 (?b4 (?b3 (?b2 (?b1 ([], prm))))) = run_blocks [?b1, ?b2, ?b3, ?b4, ?b5] prm"
    using run_blocks_snoc [OF a5 s4] by simp
  have s6: "?b6 (?b5 (?b4 (?b3 (?b2 (?b1 ([], prm)))))) = run_blocks [?b1, ?b2, ?b3, ?b4, ?b5, ?b6] prm"
    using run_blocks_snoc [OF a6 s5] by simp
  have "sqlite_buildSetClause num update prm
      = (case ?b6 (?b5 (?b4 (?b3 (?b2 (?b1 ([], prm)))))) of
           (clauses, ps) \<Rightarrow> (join '', '' clauses, ps))"
    by (simp add: sqlite_buildSetClause_def Let_def split: prod.splits)
  then show ?thesis
    by (simp only: s6)
qed

lemma sqlite_hooks_appending: "appending_hooks sqlite_hooks"
  by (simp add: appending_hooks_def sqlite_hooks_def clause_appending_def)

text \<open>
  C4 (as amended). The SET clause of the base adapter is the comma-joined concatenation of
  nine lists of fragments, in the order \<open>$set\<close>, \<open>$inc\<close>, \<open>$mul\<close>, \<open>$unset\<close>, \<open>$min\<close>,
  \<open>$max\<close>, \<open>$push\<close>, \<open>$addToSet\<close>, \<open>$pull\<close>; each list is built from the entries of its own
  operator alone, starting from no clause, with the parameters bound so far. This holds
  for every implementation of the abstract methods that only appends to the clauses. For an
  update without \<open>$mul\<close>, \<open>$min\<close> and \<open>$max\<close> the SQLite adapter's own \<open>buildSetClause\<close>
  does the same with \<open>$set\<close>, \<open>$inc\<close>, \<open>$unset\<close>, \<open>$push\<close>, \<open>$addToSet\<close>, \<open>$pull\<close>.
\<close>

theorem C4_fragment_order:
  "(appending_hooks h \<longrightarrow>
      buildSetClause d h num update prm =
       (case run_blocks
          [fold (base_set_entry d h num) (present (u_set update)),
           fold (base_arith_entry d '' + '') (present (u_inc update)),
           fold (base_arith_entry d '' * '') (present (u_mul update)),
           fold (base_unset_entry d) (present (u_unset update)),
           fold (base_minmax_entry d '' > '') (present (u_min update)),
           fold (base_minmax_entry d '' < '') (present (u_max update)),
           fold (\<lambda>(key, v). buildPushOperation h key (stringify_object v)) (present (u_push update)),
           fold (\<lambda>(key, v). buildAddToSetOperation h key (stringify_object v))
             (present (u_addToSet update)),
           fold (\<lambda>(key, v). buildPullOperation h key (stringify_object v)) (present (u_pull update))]
          prm of
        (clauses, ps) \<Rightarrow> (join '', '' clauses, ps)))
   \<and> (\<not> truthy (u_mul update) \<and> \<not> truthy (u_min update) \<and> \<not> truthy (u_max update) \<longrightarrow>
      sqlite_buildSetClause num update prm =
       (case run_blocks
          [fold (sqlite_set_entry num) (present (u_set update)),
           fold sqlite_inc_entry (present (u_inc update)),
           fold sqlite_unset_entry (present (u_unset update)),
           fold sqlite_push_entry (present (u_push update)),
           fold sqlite_addToSet_entry (present (u_addToSet update)),
           fold sqlite_pull_entry (present (u_pull update))]
          prm of
        (clauses, ps) \<Rightarrow> (join '', '' clauses, ps)))"
  using base_fragment_order [of h d num update prm] sqlite_fragment_order [of num update prm]
  by blast

theorem C4_fragment_order_witness:
  "appending_hooks sqlite_hooks
   \<and> buildSetClause sqlite sqlite_hooks (\<lambda>_. None)
        (no_update \<lparr> u_set := JObj [(''n'', JNum 1)], u_pull := JObj [(''a'', JNum 1)],
                     u_addToSet := JObj [(''b'', JNum 2)] \<rparr>) []
       = (dq @ ''n'' @ dq @ '' = ?, '' @ addToSet_clause 6 ''b'' @ '', '' @ pull_clause 6 ''a'',
          [Val (JNum 1), Val (JNum 2), Val (JNum 2), Val (JNum 2), Val (JNum 1)])
   \<and> sqlite_buildSetClause (\<lambda>_. None)
        (no_update \<lparr> u_set := JObj [(''n'', JNum 1)], u_pull := JObj [(''a'', JNum 1)],
                     u_addToSet := JObj [(''b'', JNum 2)] \<rparr>) []
       = (dq @ ''n'' @ dq @ '' = ?, '' @ addToSet_clause 10 ''b'' @ '', '' @ pull_clause 10 ''a'',
          [Val (JNum 1), Val (JNum 2), Val (JNum 2), Val (JNum 2), Val (JNum 1)])"
proof -
  let ?u = "no_update \<lparr> u_set := JObj [(''n'', JNum 1)], u_pull := JObj [(''a'', JNum 1)],
                     u_addToSet := JObj [(''b'', JNum 2)] \<rparr>"
  have h: "appending_hooks sqlite_hooks" by (rule sqlite_hooks_appending)
  have m: "\<not> truthy (u_mul ?u) \<and> \<not> truthy (u_min ?u) \<and> \<not> truthy (u_max ?u)"
    by (simp add: no_update_def)
  note t = C4_fragment_order [of sqlite_hooks sqlite "\<lambda>_. None" ?u "[]"]
  from t h have "buildSetClause sqlite sqlite_hooks (\<lambda>_. None) ?u [] =
       (case run_blocks
          [fold (base_set_entry sqlite sqlite_hooks (\<lambda>_. None)) (present (u_set ?u)),
           fold (base_arith_entry sqlite '' + '') (present (u_inc ?u)),
           fold (base_arith_entry sqlite '' * '') (present (u_mul ?u)),
           fold (base_unset_entry sqlite) (present (u_unset ?u)),
           fold (base_minmax_entry sqlite '' > '') (present (u_min ?u)),
           fold (base_minmax_entry sqlite '' < '') (present (u_max ?u)),
           fold (\<lambda>(key, v). buildPushOperation sqlite_hooks key (stringify_object v)) (present (u_push ?u)),
           fold (\<lambda>(key, v). buildAddToSetOperation sqlite_hooks key (stringify_object v))
             (present (u_addToSet ?u)),
           fold (\<lambda>(key, v). buildPullOperation sqlite_hooks key (stringify_object v)) (present (u_pull ?u))]
          [] of
        (clauses, ps) \<Rightarrow> (join '', '' clauses, ps))"
    by blast
  also have "\<dots> = (dq @ ''n'' @ dq @ '' = ?, '' @ addToSet_clause 6 ''b'' @ '', '' @ pull_clause 6 ''a'',
          [Val (JNum 1), Val (JNum 2), Val (JNum 2), Val (JNum 2), Val (JNum 1)])"
    by code_simp
  finally have a: "buildSetClause sqlite sqlite_hooks (\<lambda>_. None) ?u []
       = (dq @ ''n'' @ dq @ '' = ?, '' @ addToSet_clause 6 ''b'' @ '', '' @ pull_clause 6 ''a'',
          [Val (JNum 1), Val (JNum 2), Val (JNum 2), Val (JNum 2), Val (JNum 1)])" .
  from t m have "sqlite_buildSetClause (\<lambda>_. None) ?u [] =
       (case run_blocks
          [fold (sqlite_set_entry (\<lambda>_. None)) (present (u_set ?u)),
           fold sqlite_inc_entry (present (u_inc ?u)),
           fold sqlite_unset_entry (present (u_unset ?u)),
           fold sqlite_push_entry (present (u_push ?u)),
           fold sqlite_addToSet_entry (present (u_addToSet ?u)),
           fold sqlite_pull_entry (present (u_pull ?u))]
          [] of
        (clauses, ps) \<Rightarrow> (join '', '' clauses, ps))"
    by blast
  also have "\<dots> = (dq @ ''n'' @ dq @ '' = ?, '' @ addToSet_clause 10 ''b'' @ '', '' @ pull_clause 10 ''a'',
          [Val (JNum 1), Val (JNum 2), Val (JNum 2), Val (JNum 2), Val (JNum 1)])"
    by code_simp
  finally have b: "sqlite_buildSetClause (\<lambda>_. None) ?u []
       = (dq @ ''n'' @ dq @ '' = ?, '' @ addToSet_clause 10 ''b'' @ '', '' @ pull_clause 10 ''a'',
          [Val (JNum 1), Val (JNum 2), Val (JNum 2), Val (JNum 2), Val (JNum 1)])" .
  from h a b show ?thesis by blast
qed

text \<open>
  C4 (as stated) fails: when \<open>$pull\<close> and \<open>$addToSet\<close> are both present, the fragment of
  \<open>$addToSet\<close> comes first, in the SQLite adapter and in the base adapter.
\<close>

theorem C4_counterexample:
  "sqlite_buildSetClause (\<lambda>_. None)
      (no_update \<lparr> u_pull := JObj [(''a'', JNum 1)], u_addToSet := JObj [(''b'', JNum 2)] \<rparr>) []
     = (addToSet_clause 10 ''b'' @ '', '' @ pull_clause 10 ''a'',
        [Val (JNum 2), Val (JNum 2), Val (JNum 2), Val (JNum 1)])
   \<and> buildSetClause sqlite sqlite_hooks (\<lambda>_. None)
      (no_update \<lparr> u_pull := JObj [(''a'', JNum 1)], u_addToSet := JObj [(''b'', JNum 2)] \<rparr>) []
     = (addToSet_clause 6 ''b'' @ '', '' @ pull_clause 6 ''a'',
        [Val (JNum 2), Val (JNum 2), Val (JNum 2), Val (JNum 1)])
   \<and> addToSet_clause 10 ''b'' @ '', '' @ pull_clause 10 ''a''
       \<noteq> pull_clause 10 ''a'' @ '', '' @ addToSet_clause 10 ''b''
   \<and> addToSet_clause 6 ''b'' @ '', '' @ pull_clause 6 ''a''
       \<noteq> pull_clause 6 ''a'' @ '', '' @ addToSet_clause 6 ''b''"
  by code_simp


subsection \<open>Several operators on one field\<close>












subsection \<open>Empty \<open>$in\<close> and \<open>$nin\<close>\<close>

lemma in_nin_empty_base:
  "translateFilter d (JObj [(f, JObj [(''$in'', JArr [])])]) None
     = Inr \<lparr> sql = ''WHERE (FALSE)'', params = [] \<rparr>"
  "translateFilter d (JObj [(f, JObj [(''$nin'', JArr [])])]) None
     = Inr \<lparr> sql = ''WHERE (TRUE)'', params = [] \<rparr>"
  by (simp_all add: translateFilter_def field_condition_def buildOperatorConditions_def
      base_operator_def push_in_def alias_prefix_def Let_def)

lemma handleArrayFieldQuery_constant:
  "handleArrayFieldQuery a ''WHERE (FALSE)'' [] tbl = \<lparr> sql = ''WHERE (FALSE)'', params = [] \<rparr>"
  "handleArrayFieldQuery a ''WHERE (TRUE)'' [] tbl = \<lparr> sql = ''WHERE (TRUE)'', params = [] \<rparr>"
proof -
  have 1: "regex_matches '' IN (?)'' 0 ''WHERE (FALSE)'' = []"
    and 2: "regex_matches '' = ?'' 0 ''WHERE (FALSE)'' = []"
    and 3: "regex_matches '' IN (?)'' 0 ''WHERE (TRUE)'' = []"
    and 4: "regex_matches '' = ?'' 0 ''WHERE (TRUE)'' = []"
    by code_simp+
  have 5: "trim ''WHERE (FALSE)'' \<noteq> []" and 6: "trim ''WHERE (TRUE)'' \<noteq> []"
    by code_simp+
  show "handleArrayFieldQuery a ''WHERE (FALSE)'' [] tbl = \<lparr> sql = ''WHERE (FALSE)'', params = [] \<rparr>"
    by (simp add: handleArrayFieldQuery_def 1 2 5)
  show "handleArrayFieldQuery a ''WHERE (TRUE)'' [] tbl = \<lparr> sql = ''WHERE (TRUE)'', params = [] \<rparr>"
    by (simp add: handleArrayFieldQuery_def 3 4 6)
qed

lemma sqlite_in_nin_condition:
  "sqlite_buildOperatorConditions column (JObj [(''$in'', JArr [])]) [] = Inr (''(FALSE)'', [])"
  "sqlite_buildOperatorConditions column (JObj [(''$nin'', JArr [])]) [] = Inr (''(TRUE)'', [])"
  by (simp_all add: sqlite_buildOperatorConditions_def sqlite_operator_def buildOperatorConditions_def
      base_operator_def push_in_def)

lemma in_nin_empty_sqlite:
  assumes "\<not> is_logical f" and "isSchemaEnabled a \<longrightarrow> getCollectionSchema a tbl = None"
  shows "sqlite_translateFilter a (JObj [(f, JObj [(''$in'', JArr [])])]) tbl
           = Inr \<lparr> sql = ''WHERE (FALSE)'', params = [] \<rparr>"
    and "sqlite_translateFilter a (JObj [(f, JObj [(''$nin'', JArr [])])]) tbl
           = Inr \<lparr> sql = ''WHERE (TRUE)'', params = [] \<rparr>"
proof -
  have sd: "starts_dollar ''$in''" "starts_dollar ''$nin''" by (simp_all add: starts_dollar_def)
  have t: "trim ''(FALSE)'' \<noteq> []" "trim ''(TRUE)'' \<noteq> []" by code_simp+
  have n: "\<not> is_logical ''$in''" "\<not> is_logical ''$nin''" "''$in'' \<noteq> ''$not''" "''$nin'' \<noteq> ''$not''"
    by (simp_all add: is_logical_def)
  have w: "buildWhereConditionsForFilter a tbl (JObj [(f, JObj [(op, JArr [])])])
      = (case sqlite_buildOperatorConditions (if starts_dollar f then [] else escapeIdentifier sqlite f)
               (JObj [(op, JArr [])]) [] of
           Inl e \<Rightarrow> Inl e
         | Inr (c, ps) \<Rightarrow> Inr (if c \<noteq> [] then [c] else [], ps))" if "starts_dollar op" for op
    using that by (simp add: buildWhereConditionsForFilter_def where_condition_def Let_def
        split: sum.splits prod.splits)
  have h: "handleNestedPathInFilter (JObj [(f, JObj [(op, JArr [])])]) = Inr (JObj [(f, JObj [(op, JArr [])])])"
    if "\<not> is_logical op" "op \<noteq> ''$not''" for op
    using that assms(1) by (cases "f = ''$not''") simp_all
  from assms(2) have g: "(if isSchemaEnabled a then getCollectionSchema a tbl else None) = None"
    by simp
  show "sqlite_translateFilter a (JObj [(f, JObj [(''$in'', JArr [])])]) tbl
           = Inr \<lparr> sql = ''WHERE (FALSE)'', params = [] \<rparr>"
    by (simp add: sqlite_translateFilter_def g h n w sd sqlite_in_nin_condition t
        handleArrayFieldQuery_constant del: handleNestedPathInFilter.simps)
  show "sqlite_translateFilter a (JObj [(f, JObj [(''$nin'', JArr [])])]) tbl
           = Inr \<lparr> sql = ''WHERE (TRUE)'', params = [] \<rparr>"
    by (simp add: sqlite_translateFilter_def g h n w sd sqlite_in_nin_condition t
        handleArrayFieldQuery_constant del: handleNestedPathInFilter.simps)
qed


lemma handleArrayFieldQuery_schema_constant:
  "handleArrayFieldQuery a ''WHERE 0 = 1'' [] tbl = \<lparr> sql = ''WHERE 0 = 1'', params = [] \<rparr>"
  "handleArrayFieldQuery a ''WHERE 1 = 1'' [] tbl = \<lparr> sql = ''WHERE 1 = 1'', params = [] \<rparr>"
proof -
  have 1: "regex_matches '' IN (?)'' 0 ''WHERE 0 = 1'' = []"
    and 2: "regex_matches '' = ?'' 0 ''WHERE 0 = 1'' = []"
    and 3: "regex_matches '' IN (?)'' 0 ''WHERE 1 = 1'' = []"
    and 4: "regex_matches '' = ?'' 0 ''WHERE 1 = 1'' = []"
    by code_simp+
  have 5: "trim ''WHERE 0 = 1'' \<noteq> []" and 6: "trim ''WHERE 1 = 1'' \<noteq> []"
    by code_simp+
  show "handleArrayFieldQuery a ''WHERE 0 = 1'' [] tbl = \<lparr> sql = ''WHERE 0 = 1'', params = [] \<rparr>"
    by (simp add: handleArrayFieldQuery_def 1 2 5)
  show "handleArrayFieldQuery a ''WHERE 1 = 1'' [] tbl = \<lparr> sql = ''WHERE 1 = 1'', params = [] \<rparr>"
    by (simp add: handleArrayFieldQuery_def 3 4 6)
qed

lemma in_nin_empty_schema:
  assumes "isSchemaEnabled a" and "getCollectionSchema a tbl = Some schema"
    and "map_of (cs_fields schema) f = Some fd" and "\<not> has_dot f" and "\<not> starts_dollar f"
  shows "sqlite_translateFilter a (JObj [(f, JObj [(''$in'', JArr [])])]) tbl
           = Inr \<lparr> sql = (if fd_isScalar fd then ''WHERE (FALSE)'' else ''WHERE 0 = 1''),
                   params = [] \<rparr>"
    and "sqlite_translateFilter a (JObj [(f, JObj [(''$nin'', JArr [])])]) tbl
           = Inr \<lparr> sql = (if fd_isScalar fd then ''WHERE (TRUE)'' else ''WHERE 1 = 1''),
                   params = [] \<rparr>"
proof -
  have t: "trim ''(FALSE)'' \<noteq> []" "trim ''(TRUE)'' \<noteq> []" "trim ''0 = 1'' \<noteq> []"
    "trim ''1 = 1'' \<noteq> []" by code_simp+
  from assms(5) have nl: "\<not> is_logical f" "f \<noteq> ''$not''"
    by (auto simp add: is_logical_def starts_dollar_def)
  have n: "\<not> is_logical ''$in''" "\<not> is_logical ''$nin''" "''$in'' \<noteq> ''$not''" "''$nin'' \<noteq> ''$not''"
    by (simp_all add: is_logical_def)
  have h: "handleNestedPathInFilter (JObj [(f, JObj [(op, JArr [])])]) = Inr (JObj [(f, JObj [(op, JArr [])])])"
    if "\<not> is_logical op" "op \<noteq> ''$not''" for op
    using that nl by simp
  have b: "buildSchemaBasedWhereClause a schema (JObj [(f, JObj [(''$in'', JArr [])])]) []
      = Inr (if fd_isScalar fd then ''(FALSE)'' else ''0 = 1'', [])"
    "buildSchemaBasedWhereClause a schema (JObj [(f, JObj [(''$nin'', JArr [])])]) []
      = Inr (if fd_isScalar fd then ''(TRUE)'' else ''1 = 1'', [])"
    using assms(3,4,5)
    by (simp_all add: schema_field_def schema_plain_def sqlite_in_nin_condition json_operator_def)
  from assms(1,2) have g: "(if isSchemaEnabled a then getCollectionSchema a tbl else None) = Some schema"
    by simp
  show "sqlite_translateFilter a (JObj [(f, JObj [(''$in'', JArr [])])]) tbl
           = Inr \<lparr> sql = (if fd_isScalar fd then ''WHERE (FALSE)'' else ''WHERE 0 = 1''),
                   params = [] \<rparr>"
    by (simp add: sqlite_translateFilter_def g h n b t handleArrayFieldQuery_constant
        handleArrayFieldQuery_schema_constant
        del: handleNestedPathInFilter.simps buildSchemaBasedWhereClause.simps)
  show "sqlite_translateFilter a (JObj [(f, JObj [(''$nin'', JArr [])])]) tbl
           = Inr \<lparr> sql = (if fd_isScalar fd then ''WHERE (TRUE)'' else ''WHERE 1 = 1''),
                   params = [] \<rparr>"
    by (simp add: sqlite_translateFilter_def g h n b t handleArrayFieldQuery_constant
        handleArrayFieldQuery_schema_constant
        del: handleNestedPathInFilter.simps buildSchemaBasedWhereClause.simps)
qed

text \<open>
  C5. The law holds in the base adapter for every key, in the generic path of the SQLite
  adapter for every key that is not \<open>$and\<close>, \<open>$or\<close> or \<open>$nor\<close>, and in its schema-based path
  for every undotted field of the schema (the lemmas above). It fails in the schema-based
  path for a key that is not a field of the schema: no condition is produced, so
  \<open>{age: {$in: []}}\<close> selects every row of \<open>users\<close>.
\<close>

theorem C5_undeclared_field:
  "sqlite_translateFilter users_adapter (JObj [(''age'', JObj [(''$in'', JArr [])])]) ''users''
     = Inr \<lparr> sql = [], params = [] \<rparr>
   \<and> sqlite_translateFilter users_adapter (JObj [(''name'', JObj [(''$in'', JArr [])])]) ''users''
     = Inr \<lparr> sql = ''WHERE (FALSE)'', params = [] \<rparr>
   \<and> sqlite_translateFilter users_adapter (JObj [(''tags'', JObj [(''$in'', JArr [])])]) ''users''
     = Inr \<lparr> sql = ''WHERE 0 = 1'', params = [] \<rparr>
   \<and> sqlite_translateFilter users_adapter (JObj [(''tags'', JObj [(''$nin'', JArr [])])]) ''users''
     = Inr \<lparr> sql = ''WHERE 1 = 1'', params = [] \<rparr>"
  by code_simp

theorem C5_undeclared_field_witness:
  "sqlite_translateFilter users_adapter (JObj [(''age'', JObj [(''$in'', JArr [])])]) ''users''
     = Inr \<lparr> sql = [], params = [] \<rparr>"
  using C5_undeclared_field by (rule conjunct1)

subsection \<open>Placeholders and parameters\<close>

lemma min_placeholders:
  "buildSetClause sqlite sqlite_hooks (\<lambda>_. None) (no_update \<lparr> u_min := JObj [(''a'', JNum 1)] \<rparr>) []
     = (dq @ ''a'' @ dq @ '' = CASE WHEN '' @ dq @ ''a'' @ dq @ '' > ? OR '' @ dq @ ''a'' @ dq
          @ '' IS NULL THEN ? ELSE '' @ dq @ ''a'' @ dq @ '' END'', [Val (JNum 1)])"
  by code_simp


text \<open>
  C10. The post-processing of array fields breaks the correspondence: for
  \<open>{skills: 5, tags: "a"}\<close> on a new adapter the text has two placeholders and one
  parameter is returned.
\<close>

theorem C10_array_field_rewrite:
  "sqlite_translateFilter new_adapter (JObj [(''skills'', JNum 5), (''tags'', JStr ''a'')]) []
     = Inr \<lparr> sql = ''WHERE EXISTS (SELECT 1 FROM json_each('' @ dq @ ''skills'' @ dq
                     @ '') WHERE value = ?) AND ('' @ dq @ ''tags'' @ dq @ '' IN (?))'',
             params = [Val (JNum 5)] \<rparr>
   \<and> placeholders (''WHERE EXISTS (SELECT 1 FROM json_each('' @ dq @ ''skills'' @ dq
                     @ '') WHERE value = ?) AND ('' @ dq @ ''tags'' @ dq @ '' IN (?))'') = 2"
  by code_simp

theorem C10_array_field_rewrite_witness:
  "sqlite_translateFilter new_adapter (JObj [(''skills'', JNum 5), (''tags'', JStr ''a'')]) []
     = Inr \<lparr> sql = ''WHERE EXISTS (SELECT 1 FROM json_each('' @ dq @ ''skills'' @ dq
                     @ '') WHERE value = ?) AND ('' @ dq @ ''tags'' @ dq @ '' IN (?))'',
             params = [Val (JNum 5)] \<rparr>"
  using C10_array_field_rewrite by (rule conjunct1)


end
